theory Spec2Isabelle
  imports Complex_Main "HOL-Library.Sublist" "HOL-Library.Log_Nat"
begin

section \<open>Student course management: models, services and persistence\<close>

text \<open>
  The theory embeds the Python package \<^verbatim>\<open>student_management\<close>: the three entity
  classes of \<^verbatim>\<open>models/\<close>, the three services of \<^verbatim>\<open>services/\<close> and the
  \<^verbatim>\<open>FileHandler\<close> of \<^verbatim>\<open>data/file_handler.py\<close>.

  Conventions of the embedding:
  \<^item> a Python \<^verbatim>\<open>str\<close> is a \<^typ>\<open>string\<close>, each \<^typ>\<open>char\<close> standing for the code
    point of the same number (code points below 256);
  \<^item> \<^verbatim>\<open>credits: int\<close> is an \<^typ>\<open>int\<close>; a grade (\<^verbatim>\<open>Optional[float]\<close>, ints accepted)
    is a \<^typ>\<open>rat option\<close>: every finite Python number is a rational and comparisons
    are exact; arithmetic on grades is that of IEEE-754 doubles, each sum and quotient
    rounded to the nearest double (\<open>round_double\<close>);
  \<^item> a \<^verbatim>\<open>raise\<close> is a result \<open>Inl e\<close>; an operation on a service takes the state
    and returns the result together with the state it leaves.
\<close>

subsection \<open>Python string primitives\<close>

text \<open>\<^verbatim>\<open>str.isspace\<close> on one code point below 256.\<close>

definition is_space :: "char \<Rightarrow> bool" where
  "is_space c = (let n = (of_char c :: nat) in
     (9 \<le> n \<and> n \<le> 13) \<or> (28 \<le> n \<and> n \<le> 32) \<or> n = 133 \<or> n = 160)"

text \<open>\<^verbatim>\<open>str.strip()\<close>: leading and trailing whitespace removed.\<close>

definition strip :: "string \<Rightarrow> string" where
  "strip s = rev (dropWhile is_space (rev (dropWhile is_space s)))"

text \<open>\<^verbatim>\<open>not s or not s.strip()\<close>, the blank test of every \<^verbatim>\<open>validate\<close>.\<close>

definition blank :: "string \<Rightarrow> bool" where
  "blank s = (s = [] \<or> strip s = [])"

text \<open>\<^verbatim>\<open>str.lower()\<close> on one code point below 256: A-Z and the Latin-1 capitals
  (0xC0-0xDE without the multiplication sign 0xD7) move up by 32.\<close>

definition lower_char :: "char \<Rightarrow> char" where
  "lower_char c = (let n = (of_char c :: nat) in
     if (65 \<le> n \<and> n \<le> 90) \<or> (192 \<le> n \<and> n \<le> 222 \<and> n \<noteq> 215)
     then char_of (n + 32) else c)"

definition lower :: "string \<Rightarrow> string" where
  "lower s = map lower_char s"

text \<open>\<^verbatim>\<open>a in b\<close> on strings: \<open>a\<close> occurs in \<open>b\<close> as a contiguous block.\<close>

fun str_in :: "string \<Rightarrow> string \<Rightarrow> bool" where
  "str_in a [] = (a = [])"
| "str_in a (c # cs) = (prefix a (c # cs) \<or> str_in a cs)"

text \<open>\<^verbatim>\<open>'; '.join(errors)\<close>.\<close>

fun join :: "string list \<Rightarrow> string" where
  "join [] = []"
| "join [m] = m"
| "join (m # ms) = m @ ''; '' @ join ms"

subsection \<open>Python regular expressions\<close>

text \<open>The fragment of \<^verbatim>\<open>re\<close> the two patterns of the models use: character
  classes, sequence and repetition. Matching is by derivatives.\<close>

datatype rx = Zero | One | Cls "char \<Rightarrow> bool" | Seq rx rx | Alt rx rx | Star rx

fun nullable :: "rx \<Rightarrow> bool" where
  "nullable Zero = False"
| "nullable One = True"
| "nullable (Cls p) = False"
| "nullable (Seq r t) = (nullable r \<and> nullable t)"
| "nullable (Alt r t) = (nullable r \<or> nullable t)"
| "nullable (Star r) = True"

fun deriv :: "char \<Rightarrow> rx \<Rightarrow> rx" where
  "deriv c Zero = Zero"
| "deriv c One = Zero"
| "deriv c (Cls p) = (if p c then One else Zero)"
| "deriv c (Seq r t) =
     (if nullable r then Alt (Seq (deriv c r) t) (deriv c t) else Seq (deriv c r) t)"
| "deriv c (Alt r t) = Alt (deriv c r) (deriv c t)"
| "deriv c (Star r) = Seq (deriv c r) (Star r)"

text \<open>The whole string is in the language of the expression.\<close>

fun rx_matches :: "rx \<Rightarrow> string \<Rightarrow> bool" where
  "rx_matches r [] = nullable r"
| "rx_matches r (c # cs) = rx_matches (deriv c r) cs"

text \<open>\<^verbatim>\<open>r{n}\<close>, \<^verbatim>\<open>r+\<close> and \<^verbatim>\<open>r{n,}\<close>.\<close>

fun times :: "nat \<Rightarrow> rx \<Rightarrow> rx" where
  "times 0 r = One"
| "times (Suc n) r = Seq r (times n r)"

definition plus :: "rx \<Rightarrow> rx" where
  "plus r = Seq r (Star r)"

definition at_least :: "nat \<Rightarrow> rx \<Rightarrow> rx" where
  "at_least n r = Seq (times n r) (Star r)"

text \<open>\<^verbatim>\<open>bool(re.match("^" + r + "$", s))\<close> with no flags: the match starts at the
  beginning, and \<^verbatim>\<open>$\<close> holds at the end of the string and also just before a
  newline that is the last character.\<close>

definition re_match_anchored :: "rx \<Rightarrow> string \<Rightarrow> bool" where
  "re_match_anchored r s =
     (rx_matches r s \<or> (s \<noteq> [] \<and> last s = CHR 0x0A \<and> rx_matches r (butlast s)))"

definition in_range :: "nat \<Rightarrow> nat \<Rightarrow> char \<Rightarrow> bool" where
  "in_range lo hi c = (lo \<le> of_char c \<and> (of_char c :: nat) \<le> hi)"

text \<open>\<^verbatim>\<open>[A-Z]\<close>, \<^verbatim>\<open>[a-z]\<close>, and \<^verbatim>\<open>\d\<close> (below 256 the decimal digits are 0-9).\<close>

definition upper_AZ :: "char \<Rightarrow> bool" where
  "upper_AZ = in_range 65 90"

definition lower_az :: "char \<Rightarrow> bool" where
  "lower_az = in_range 97 122"

definition digit_09 :: "char \<Rightarrow> bool" where
  "digit_09 = in_range 48 57"

subsection \<open>Errors and timestamps\<close>

text \<open>The exceptions the package raises or lets through. \<open>Untyped\<close> stands for a
  document field whose JSON type is not the annotated one of the attribute it would be
  stored in: Python builds the object all the same, but such objects are outside this
  embedding, so reading them is reported instead.\<close>

datatype error =
    ValueError string
  | Exception string
  | KeyError string
  | Untyped string
  | ZeroDivisionError

text \<open>A naive \<^verbatim>\<open>datetime\<close>, as \<^verbatim>\<open>datetime.now()\<close> returns it. The class keeps its
  fields in range (\<open>valid_datetime\<close>).\<close>

record datetime =
  dt_year :: nat
  dt_month :: nat
  dt_day :: nat
  dt_hour :: nat
  dt_minute :: nat
  dt_second :: nat
  dt_microsecond :: nat

definition is_leap :: "nat \<Rightarrow> bool" where
  "is_leap y = (y mod 4 = 0 \<and> (y mod 100 \<noteq> 0 \<or> y mod 400 = 0))"

definition days_in_month :: "nat \<Rightarrow> nat \<Rightarrow> nat" where
  "days_in_month y m =
     (if m = 2 then (if is_leap y then 29 else 28)
      else if m \<in> {4, 6, 9, 11} then 30 else 31)"

definition valid_datetime :: "datetime \<Rightarrow> bool" where
  "valid_datetime d =
     (1 \<le> dt_year d \<and> dt_year d \<le> 9999 \<and> 1 \<le> dt_month d \<and> dt_month d \<le> 12 \<and>
      1 \<le> dt_day d \<and> dt_day d \<le> days_in_month (dt_year d) (dt_month d) \<and>
      dt_hour d < 24 \<and> dt_minute d < 60 \<and> dt_second d < 60 \<and> dt_microsecond d < 1000000)"

definition digit_char :: "nat \<Rightarrow> char" where
  "digit_char n = char_of (48 + n)"

text \<open>\<^verbatim>\<open>"%0wd" % n\<close> for \<open>n\<close> of at most \<open>w\<close> digits.\<close>

fun zero_pad :: "nat \<Rightarrow> nat \<Rightarrow> string" where
  "zero_pad 0 n = []"
| "zero_pad (Suc w) n = zero_pad w (n div 10) @ [digit_char (n mod 10)]"

text \<open>\<^verbatim>\<open>datetime.isoformat()\<close> of a naive datetime:
  \<^verbatim>\<open>YYYY-MM-DDTHH:MM:SS\<close>, followed by \<^verbatim>\<open>.ffffff\<close> when the microsecond is not 0.\<close>

definition isoformat :: "datetime \<Rightarrow> string" where
  "isoformat d =
     zero_pad 4 (dt_year d) @ ''-'' @ zero_pad 2 (dt_month d) @ ''-'' @ zero_pad 2 (dt_day d) @
     ''T'' @ zero_pad 2 (dt_hour d) @ '':'' @ zero_pad 2 (dt_minute d) @ '':'' @
     zero_pad 2 (dt_second d) @
     (if dt_microsecond d = 0 then [] else ''.'' @ zero_pad 6 (dt_microsecond d))"

fun parse_digits :: "nat \<Rightarrow> string \<Rightarrow> nat option" where
  "parse_digits acc [] = Some acc"
| "parse_digits acc (c # cs) =
     (if digit_09 c then parse_digits (10 * acc + (of_char c - 48)) cs else None)"

text \<open>The Python slice \<^verbatim>\<open>s[i:j]\<close>.\<close>

definition slice :: "nat \<Rightarrow> nat \<Rightarrow> string \<Rightarrow> string" where
  "slice i j s = take (j - i) (drop i s)"

text \<open>\<^verbatim>\<open>datetime.fromisoformat\<close> on the two shapes \<open>isoformat\<close> writes for a naive
  datetime (19 characters, or 26 with the microseconds; any character may separate date
  and time). \<open>None\<close> is the \<^verbatim>\<open>ValueError\<close> of a string that is not a date; the other
  shapes the library accepts (a date alone, a time cut short, a UTC offset) are not
  modelled and are answered \<open>None\<close> too.\<close>

definition fromisoformat :: "string \<Rightarrow> datetime option" where
  "fromisoformat s =
     (if (length s = 19 \<or> (length s = 26 \<and> s ! 19 = CHR ''.'')) \<and>
         s ! 4 = CHR ''-'' \<and> s ! 7 = CHR ''-'' \<and> s ! 13 = CHR '':'' \<and> s ! 16 = CHR '':''
      then
        (case (parse_digits 0 (slice 0 4 s), parse_digits 0 (slice 5 7 s),
               parse_digits 0 (slice 8 10 s), parse_digits 0 (slice 11 13 s),
               parse_digits 0 (slice 14 16 s), parse_digits 0 (slice 17 19 s),
               (if length s = 26 then parse_digits 0 (slice 20 26 s) else Some 0)) of
           (Some y, Some mo, Some d, Some h, Some mi, Some sec, Some us) \<Rightarrow>
              (let dt = \<lparr>dt_year = y, dt_month = mo, dt_day = d, dt_hour = h,
                         dt_minute = mi, dt_second = sec, dt_microsecond = us\<rparr>
               in if valid_datetime dt then Some dt else None)
         | _ \<Rightarrow> None)
      else None)"

subsection \<open>Python floats\<close>









subsection \<open>JSON documents\<close>

text \<open>What \<^verbatim>\<open>json.loads\<close> returns and \<^verbatim>\<open>json.dumps\<close> takes; a \<^verbatim>\<open>dict\<close> keeps its
  keys in insertion order.\<close>

datatype json =
    JNull
  | JInt int
  | JNum rat
  | JStr string
  | JArr "json list"
  | JObj "(string \<times> json) list"

text \<open>\<^verbatim>\<open>data[key]\<close> on a dictionary.\<close>

definition subscript :: "(string \<times> json) list \<Rightarrow> string \<Rightarrow> error + json" where
  "subscript data k = (case map_of data k of None \<Rightarrow> Inl (KeyError k) | Some v \<Rightarrow> Inr v)"

definition str_field :: "(string \<times> json) list \<Rightarrow> string \<Rightarrow> error + string" where
  "str_field data k =
     (case subscript data k of
        Inl e \<Rightarrow> Inl e
      | Inr (JStr v) \<Rightarrow> Inr v
      | Inr _ \<Rightarrow> Inl (Untyped k))"

definition int_field :: "(string \<times> json) list \<Rightarrow> string \<Rightarrow> error + int" where
  "int_field data k =
     (case subscript data k of
        Inl e \<Rightarrow> Inl e
      | Inr (JInt v) \<Rightarrow> Inr v
      | Inr _ \<Rightarrow> Inl (Untyped k))"

text \<open>A list comprehension over a constructor that may raise: the first exception ends it.\<close>

fun map_result :: "('a \<Rightarrow> error + 'b) \<Rightarrow> 'a list \<Rightarrow> error + 'b list" where
  "map_result f [] = Inr []"
| "map_result f (x # xs) =
     (case f x of
        Inl e \<Rightarrow> Inl e
      | Inr y \<Rightarrow> (case map_result f xs of Inl e \<Rightarrow> Inl e | Inr ys \<Rightarrow> Inr (y # ys)))"

subsection \<open>models/student.py\<close>

record Student =
  s_student_id :: string
  s_name :: string
  s_email :: string
  s_program :: string

text \<open>\<^verbatim>\<open>[a-zA-Z0-9._%+-]\<close>, \<^verbatim>\<open>[a-zA-Z0-9.-]\<close> and \<^verbatim>\<open>[a-zA-Z]\<close>.\<close>

definition email_local_char :: "char \<Rightarrow> bool" where
  "email_local_char c =
     (lower_az c \<or> upper_AZ c \<or> digit_09 c \<or> c \<in> set ''._%+-'')"

definition email_domain_char :: "char \<Rightarrow> bool" where
  "email_domain_char c = (lower_az c \<or> upper_AZ c \<or> digit_09 c \<or> c \<in> set ''.-'')"

definition letter_char :: "char \<Rightarrow> bool" where
  "letter_char c = (lower_az c \<or> upper_AZ c)"

text \<open>\<^verbatim>\<open>Student._is_valid_email\<close>, pattern
  \<^verbatim>\<open>^[a-zA-Z0-9._%+-]+@[a-zA-Z0-9.-]+\.[a-zA-Z]{2,}$\<close>.\<close>

definition email_pattern :: rx where
  "email_pattern =
     Seq (plus (Cls email_local_char))
       (Seq (Cls (\<lambda>c. c = CHR ''@''))
         (Seq (plus (Cls email_domain_char))
           (Seq (Cls (\<lambda>c. c = CHR ''.'')) (at_least 2 (Cls letter_char)))))"

definition is_valid_email :: "string \<Rightarrow> bool" where
  "is_valid_email email = re_match_anchored email_pattern email"

text \<open>\<^verbatim>\<open>Student.validate\<close>.\<close>

definition Student_validate :: "Student \<Rightarrow> string list" where
  "Student_validate s =
     (if blank (s_student_id s) then [''Student ID is required and cannot be empty''] else []) @
     (if blank (s_name s) then [''Name is required and cannot be empty''] else []) @
     (if blank (s_email s) then [''Email is required and cannot be empty'']
      else if \<not> is_valid_email (s_email s) then [''Email format is invalid'']
      else []) @
     (if blank (s_program s) then [''Program is required and cannot be empty''] else [])"

text \<open>\<^verbatim>\<open>Student.to_dict\<close> and \<^verbatim>\<open>Student.from_dict\<close>.\<close>

definition Student_to_dict :: "Student \<Rightarrow> json" where
  "Student_to_dict s =
     JObj [(''student_id'', JStr (s_student_id s)), (''name'', JStr (s_name s)),
           (''email'', JStr (s_email s)), (''program'', JStr (s_program s))]"

definition Student_from_dict :: "json \<Rightarrow> error + Student" where
  "Student_from_dict j =
     (case j of
        JObj data \<Rightarrow>
          (case str_field data ''student_id'' of Inl e \<Rightarrow> Inl e | Inr sid \<Rightarrow>
          (case str_field data ''name'' of Inl e \<Rightarrow> Inl e | Inr n \<Rightarrow>
          (case str_field data ''email'' of Inl e \<Rightarrow> Inl e | Inr em \<Rightarrow>
          (case str_field data ''program'' of Inl e \<Rightarrow> Inl e | Inr pr \<Rightarrow>
             Inr \<lparr>s_student_id = sid, s_name = n, s_email = em, s_program = pr\<rparr>))))
      | _ \<Rightarrow> Inl (Untyped ''student''))"

subsection \<open>models/course.py\<close>

record Course =
  c_course_code :: string
  c_name :: string
  c_credits :: int
  c_instructor :: string

text \<open>\<^verbatim>\<open>Course._is_valid_course_code\<close>, pattern \<^verbatim>\<open>^[A-Z]{3}\d{4}$\<close>.\<close>

definition course_code_pattern :: rx where
  "course_code_pattern = Seq (times 3 (Cls upper_AZ)) (times 4 (Cls digit_09))"

definition is_valid_course_code :: "string \<Rightarrow> bool" where
  "is_valid_course_code code = re_match_anchored course_code_pattern code"

text \<open>\<^verbatim>\<open>Course.validate\<close>. The branch \<^verbatim>\<open>not isinstance(self.credits, int)\<close> is never
  taken for credits of the annotated type.\<close>

definition Course_validate :: "Course \<Rightarrow> string list" where
  "Course_validate c =
     (if blank (c_course_code c) then [''Course code is required and cannot be empty'']
      else if \<not> is_valid_course_code (c_course_code c)
      then [''Course code must be in format XXX1234 (three uppercase letters followed by four digits)'']
      else []) @
     (if blank (c_name c) then [''Course name is required and cannot be empty''] else []) @
     (if \<not> (1 \<le> c_credits c \<and> c_credits c \<le> 6) then [''Credits must be between 1 and 6''] else []) @
     (if blank (c_instructor c) then [''Instructor name is required and cannot be empty''] else [])"

text \<open>\<^verbatim>\<open>Course.to_dict\<close> and \<^verbatim>\<open>Course.from_dict\<close>.\<close>

definition Course_to_dict :: "Course \<Rightarrow> json" where
  "Course_to_dict c =
     JObj [(''course_code'', JStr (c_course_code c)), (''name'', JStr (c_name c)),
           (''credits'', JInt (c_credits c)), (''instructor'', JStr (c_instructor c))]"

definition Course_from_dict :: "json \<Rightarrow> error + Course" where
  "Course_from_dict j =
     (case j of
        JObj data \<Rightarrow>
          (case str_field data ''course_code'' of Inl e \<Rightarrow> Inl e | Inr code \<Rightarrow>
          (case str_field data ''name'' of Inl e \<Rightarrow> Inl e | Inr n \<Rightarrow>
          (case int_field data ''credits'' of Inl e \<Rightarrow> Inl e | Inr cr \<Rightarrow>
          (case str_field data ''instructor'' of Inl e \<Rightarrow> Inl e | Inr ins \<Rightarrow>
             Inr \<lparr>c_course_code = code, c_name = n, c_credits = cr, c_instructor = ins\<rparr>))))
      | _ \<Rightarrow> Inl (Untyped ''course''))"

subsection \<open>models/enrollment.py\<close>

record Enrollment =
  e_student_id :: string
  e_course_code :: string
  e_grade :: "rat option"
  e_enrollment_date :: datetime

text \<open>\<^verbatim>\<open>Enrollment.__init__\<close>: \<^verbatim>\<open>enrollment_date or datetime.now()\<close>; a datetime is
  always truthy, so only \<^verbatim>\<open>None\<close> is replaced by the clock's value \<open>now\<close>.\<close>

definition Enrollment_init ::
  "datetime \<Rightarrow> string \<Rightarrow> string \<Rightarrow> rat option \<Rightarrow> datetime option \<Rightarrow> Enrollment" where
  "Enrollment_init now sid code g d =
     \<lparr>e_student_id = sid, e_course_code = code, e_grade = g,
      e_enrollment_date = (case d of None \<Rightarrow> now | Some t \<Rightarrow> t)\<rparr>"

text \<open>\<^verbatim>\<open>Enrollment.validate\<close>. The branch \<^verbatim>\<open>not isinstance(self.grade, (int, float))\<close>
  is never taken for a grade of the annotated type.\<close>

definition Enrollment_validate :: "Enrollment \<Rightarrow> string list" where
  "Enrollment_validate e =
     (if blank (e_student_id e) then [''Student ID is required and cannot be empty''] else []) @
     (if blank (e_course_code e) then [''Course code is required and cannot be empty''] else []) @
     (case e_grade e of
        None \<Rightarrow> []
      | Some g \<Rightarrow> if \<not> (0 \<le> g \<and> g \<le> 100) then [''Grade must be between 0 and 100''] else [])"

text \<open>\<^verbatim>\<open>Enrollment.to_dict\<close>.\<close>

definition Enrollment_to_dict :: "Enrollment \<Rightarrow> json" where
  "Enrollment_to_dict e =
     JObj [(''student_id'', JStr (e_student_id e)), (''course_code'', JStr (e_course_code e)),
           (''grade'', (case e_grade e of None \<Rightarrow> JNull | Some g \<Rightarrow> JNum g)),
           (''enrollment_date'', JStr (isoformat (e_enrollment_date e)))]"

text \<open>\<^verbatim>\<open>Enrollment.from_dict\<close>. A date that is a string goes through
  \<^verbatim>\<open>fromisoformat\<close>; a missing or null date leaves \<^verbatim>\<open>None\<close> to the constructor, which
  takes the clock's value. \<^verbatim>\<open>data.get("grade")\<close> is \<^verbatim>\<open>None\<close> for a missing key.\<close>

definition Enrollment_from_dict :: "datetime \<Rightarrow> json \<Rightarrow> error + Enrollment" where
  "Enrollment_from_dict now j =
     (case j of
        JObj data \<Rightarrow>
          (case (case map_of data ''enrollment_date'' of
                   None \<Rightarrow> Inr None
                 | Some (JStr t) \<Rightarrow>
                     (case fromisoformat t of
                        None \<Rightarrow> Inl (ValueError (''Invalid isoformat string: '' @ t))
                      | Some d \<Rightarrow> Inr (Some d))
                 | Some JNull \<Rightarrow> Inr None
                 | Some _ \<Rightarrow> Inl (Untyped ''enrollment_date'')) of
             Inl e \<Rightarrow> Inl e
           | Inr enrollment_date \<Rightarrow>
          (case str_field data ''student_id'' of Inl e \<Rightarrow> Inl e | Inr sid \<Rightarrow>
          (case str_field data ''course_code'' of Inl e \<Rightarrow> Inl e | Inr code \<Rightarrow>
          (case (case map_of data ''grade'' of
                   None \<Rightarrow> Inr None
                 | Some JNull \<Rightarrow> Inr None
                 | Some (JNum g) \<Rightarrow> Inr (Some g)
                 | Some (JInt g) \<Rightarrow> Inr (Some (of_int g))
                 | Some _ \<Rightarrow> Inl (Untyped ''grade'')) of
             Inl e \<Rightarrow> Inl e
           | Inr g \<Rightarrow> Inr (Enrollment_init now sid code g enrollment_date)))))
      | _ \<Rightarrow> Inl (Untyped ''enrollment''))"

text \<open>\<^verbatim>\<open>Enrollment.calculate_letter_grade\<close>.\<close>

definition calculate_letter_grade :: "Enrollment \<Rightarrow> string" where
  "calculate_letter_grade e =
     (case e_grade e of
        None \<Rightarrow> ''N/A''
      | Some g \<Rightarrow>
          if g \<ge> 90 then ''A+''
          else if g \<ge> 85 then ''A''
          else if g \<ge> 80 then ''B+''
          else if g \<ge> 75 then ''B''
          else if g \<ge> 70 then ''C+''
          else if g \<ge> 65 then ''C''
          else if g \<ge> 60 then ''D+''
          else if g \<ge> 55 then ''D''
          else ''F'')"

text \<open>The band table as the specification words it: each band has an inclusive lower
  bound, and of the bands a score reaches the one with the highest bound gives the
  letter; a score that reaches none is an F.\<close>

definition band_table :: "(rat \<times> string) list" where
  "band_table = [(90, ''A+''), (85, ''A''), (80, ''B+''), (75, ''B''),
                 (70, ''C+''), (65, ''C''), (60, ''D+''), (55, ''D'')]"

fun highest_band :: "(rat \<times> string) list \<Rightarrow> (rat \<times> string) option" where
  "highest_band [] = None"
| "highest_band (b # bs) =
     (case highest_band bs of
        None \<Rightarrow> Some b
      | Some b' \<Rightarrow> if fst b' > fst b then Some b' else Some b)"

definition band_letter :: "rat option \<Rightarrow> string" where
  "band_letter score =
     (case score of
        None \<Rightarrow> ''N/A''
      | Some g \<Rightarrow>
          (case highest_band (filter (\<lambda>b. g \<ge> fst b) band_table) of
             None \<Rightarrow> ''F''
           | Some b \<Rightarrow> snd b))"

subsection \<open>data/file_handler.py\<close>

text \<open>A file of the data directory holds text. \<^verbatim>\<open>json.loads\<close> either parses it to a
  document or raises \<^verbatim>\<open>JSONDecodeError\<close>; \<^verbatim>\<open>write_text(json.dumps(data))\<close> leaves a
  text that parses back to \<open>data\<close>. So a file is kept as the document its text parses
  to, or as \<open>Malformed\<close>.\<close>

datatype file_content = Doc json | Malformed

type_synonym data_dir = "string \<rightharpoonup> file_content"

text \<open>The envelope the three \<^verbatim>\<open>save_*\<close> methods write: the data array under the
  collection's name, then the metadata.\<close>

definition envelope :: "datetime \<Rightarrow> string \<Rightarrow> json list \<Rightarrow> json" where
  "envelope now collection items =
     JObj [(collection, JArr items),
           (''metadata'',
            JObj [(''version'', JStr ''1.0''),
                  (''last_updated'', JStr (isoformat now)),
                  (''count'', JInt (int (length items)))])]"

text \<open>The body the three \<^verbatim>\<open>load_*\<close> methods share: no file gives the empty list, a
  malformed text raises (the message keeps the file's name; the directory and the
  parser's own text are left out), and \<^verbatim>\<open>data.get(collection, [])\<close> is read item by
  item.\<close>

definition load_collection ::
  "data_dir \<Rightarrow> string \<Rightarrow> (json \<Rightarrow> error + 'a) \<Rightarrow> error + 'a list" where
  "load_collection fs collection from_dict =
     (case fs (collection @ ''.json'') of
        None \<Rightarrow> Inr []
      | Some Malformed \<Rightarrow> Inl (Exception (''Invalid JSON in '' @ collection @ ''.json''))
      | Some (Doc (JObj data)) \<Rightarrow>
          (case map_of data collection of
             None \<Rightarrow> Inr []
           | Some (JArr items) \<Rightarrow> map_result from_dict items
           | Some _ \<Rightarrow> Inl (Untyped collection))
      | Some (Doc _) \<Rightarrow> Inl (Untyped collection))"

definition load_students :: "data_dir \<Rightarrow> error + Student list" where
  "load_students fs = load_collection fs ''students'' Student_from_dict"

definition save_students :: "datetime \<Rightarrow> data_dir \<Rightarrow> Student list \<Rightarrow> data_dir" where
  "save_students now fs xs =
     fs(''students.json'' \<mapsto> Doc (envelope now ''students'' (map Student_to_dict xs)))"

definition load_courses :: "data_dir \<Rightarrow> error + Course list" where
  "load_courses fs = load_collection fs ''courses'' Course_from_dict"

definition save_courses :: "datetime \<Rightarrow> data_dir \<Rightarrow> Course list \<Rightarrow> data_dir" where
  "save_courses now fs xs =
     fs(''courses.json'' \<mapsto> Doc (envelope now ''courses'' (map Course_to_dict xs)))"

definition load_enrollments :: "datetime \<Rightarrow> data_dir \<Rightarrow> error + Enrollment list" where
  "load_enrollments now fs = load_collection fs ''enrollments'' (Enrollment_from_dict now)"

definition save_enrollments :: "datetime \<Rightarrow> data_dir \<Rightarrow> Enrollment list \<Rightarrow> data_dir" where
  "save_enrollments now fs xs =
     fs(''enrollments.json'' \<mapsto> Doc (envelope now ''enrollments'' (map Enrollment_to_dict xs)))"

subsection \<open>The services' state\<close>

text \<open>The three services share one \<^verbatim>\<open>FileHandler\<close>; each owns its list. An operation
  takes the state and returns its result (\<open>Inl\<close> for a raise) with the state it leaves;
  \<open>now\<close> is what \<^verbatim>\<open>datetime.now()\<close> answers during the call. An object found in a list
  is referred to by its position, so that assigning to its attributes is an update of
  the list at that position.\<close>

record system =
  students :: "Student list"
  courses :: "Course list"
  enrollments :: "Enrollment list"
  files :: data_dir

text \<open>The position of the first element a loop with an early \<^verbatim>\<open>return\<close> finds.\<close>

fun first_index :: "('a \<Rightarrow> bool) \<Rightarrow> 'a list \<Rightarrow> nat option" where
  "first_index P [] = None"
| "first_index P (x # xs) =
     (if P x then Some 0 else map_option Suc (first_index P xs))"

text \<open>\<^verbatim>\<open>list.remove(obj)\<close> for the object at position \<open>i\<close>.\<close>

definition remove_at :: "nat \<Rightarrow> 'a list \<Rightarrow> 'a list" where
  "remove_at i xs = take i xs @ drop (Suc i) xs"

text \<open>\<^verbatim>\<open>if s:\<close> for an \<^verbatim>\<open>Optional[str]\<close>: neither \<^verbatim>\<open>None\<close> nor empty.\<close>

definition truthy :: "string option \<Rightarrow> bool" where
  "truthy s = (case s of None \<Rightarrow> False | Some v \<Rightarrow> v \<noteq> [])"

subsection \<open>services/student_service.py\<close>

definition StudentService_save :: "datetime \<Rightarrow> system \<Rightarrow> system" where
  "StudentService_save now st = st\<lparr>files := save_students now (files st) (students st)\<rparr>"

definition student_position :: "system \<Rightarrow> string \<Rightarrow> nat option" where
  "student_position st sid = first_index (\<lambda>s. s_student_id s = sid) (students st)"

definition get_student :: "system \<Rightarrow> string \<Rightarrow> Student option" where
  "get_student st sid = map_option (\<lambda>i. students st ! i) (student_position st sid)"

definition create_student ::
  "datetime \<Rightarrow> system \<Rightarrow> string \<Rightarrow> string \<Rightarrow> string \<Rightarrow> string \<Rightarrow> (error + Student) \<times> system" where
  "create_student now st sid n em pr =
     (if get_student st sid \<noteq> None
      then (Inl (ValueError (''Student with ID '' @ sid @ '' already exists.'')), st)
      else
        let student = \<lparr>s_student_id = sid, s_name = n, s_email = em, s_program = pr\<rparr>;
            errors = Student_validate student
        in if errors \<noteq> []
           then (Inl (ValueError (''Invalid student data: '' @ join errors)), st)
           else (Inr student,
                 StudentService_save now (st\<lparr>students := students st @ [student]\<rparr>)))"

definition list_students :: "system \<Rightarrow> Student list" where
  "list_students st = students st"

definition update_student ::
  "datetime \<Rightarrow> system \<Rightarrow> string \<Rightarrow> string option \<Rightarrow> string option \<Rightarrow> string option
     \<Rightarrow> (error + Student) \<times> system" where
  "update_student now st sid n em pr =
     (case student_position st sid of
        None \<Rightarrow> (Inl (ValueError (''Student with ID '' @ sid @ '' not found.'')), st)
      | Some i \<Rightarrow>
          let student = students st ! i;
              original_name = s_name student;
              original_email = s_email student;
              original_program = s_program student;
              student = (case n of None \<Rightarrow> student | Some v \<Rightarrow> student\<lparr>s_name := v\<rparr>);
              student = (case em of None \<Rightarrow> student | Some v \<Rightarrow> student\<lparr>s_email := v\<rparr>);
              student = (case pr of None \<Rightarrow> student | Some v \<Rightarrow> student\<lparr>s_program := v\<rparr>);
              errors = Student_validate student
          in if errors \<noteq> []
             then
               let student = student\<lparr>s_name := original_name, s_email := original_email,
                                      s_program := original_program\<rparr>
               in (Inl (ValueError (''Invalid update data: '' @ join errors)),
                   st\<lparr>students := (students st)[i := student]\<rparr>)
             else (Inr student,
                   StudentService_save now (st\<lparr>students := (students st)[i := student]\<rparr>)))"

definition delete_student :: "datetime \<Rightarrow> system \<Rightarrow> string \<Rightarrow> bool \<times> system" where
  "delete_student now st sid =
     (case student_position st sid of
        Some i \<Rightarrow>
          (True, StudentService_save now (st\<lparr>students := remove_at i (students st)\<rparr>))
      | None \<Rightarrow> (False, st))"

definition search_students :: "system \<Rightarrow> string option \<Rightarrow> string option \<Rightarrow> Student list" where
  "search_students st n pr =
     (let results = students st;
          results = (if truthy n
                     then filter (\<lambda>s. str_in (lower (the n)) (lower (s_name s))) results
                     else results);
          results = (if truthy pr
                     then filter (\<lambda>s. s_program s = the pr) results
                     else results)
      in results)"

subsection \<open>services/course_service.py\<close>

definition CourseService_save :: "datetime \<Rightarrow> system \<Rightarrow> system" where
  "CourseService_save now st = st\<lparr>files := save_courses now (files st) (courses st)\<rparr>"

definition course_position :: "system \<Rightarrow> string \<Rightarrow> nat option" where
  "course_position st code = first_index (\<lambda>c. c_course_code c = code) (courses st)"

definition get_course :: "system \<Rightarrow> string \<Rightarrow> Course option" where
  "get_course st code = map_option (\<lambda>i. courses st ! i) (course_position st code)"

definition create_course ::
  "datetime \<Rightarrow> system \<Rightarrow> string \<Rightarrow> string \<Rightarrow> int \<Rightarrow> string \<Rightarrow> (error + Course) \<times> system" where
  "create_course now st code n cr ins =
     (if get_course st code \<noteq> None
      then (Inl (ValueError (''Course with code '' @ code @ '' already exists.'')), st)
      else
        let course = \<lparr>c_course_code = code, c_name = n, c_credits = cr, c_instructor = ins\<rparr>;
            errors = Course_validate course
        in if errors \<noteq> []
           then (Inl (ValueError (''Invalid course data: '' @ join errors)), st)
           else (Inr course,
                 CourseService_save now (st\<lparr>courses := courses st @ [course]\<rparr>)))"

definition list_courses :: "system \<Rightarrow> Course list" where
  "list_courses st = courses st"

definition update_course ::
  "datetime \<Rightarrow> system \<Rightarrow> string \<Rightarrow> string option \<Rightarrow> int option \<Rightarrow> string option
     \<Rightarrow> (error + Course) \<times> system" where
  "update_course now st code n cr ins =
     (case course_position st code of
        None \<Rightarrow> (Inl (ValueError (''Course with code '' @ code @ '' not found.'')), st)
      | Some i \<Rightarrow>
          let course = courses st ! i;
              original_name = c_name course;
              original_credits = c_credits course;
              original_instructor = c_instructor course;
              course = (case n of None \<Rightarrow> course | Some v \<Rightarrow> course\<lparr>c_name := v\<rparr>);
              course = (case cr of None \<Rightarrow> course | Some v \<Rightarrow> course\<lparr>c_credits := v\<rparr>);
              course = (case ins of None \<Rightarrow> course | Some v \<Rightarrow> course\<lparr>c_instructor := v\<rparr>);
              errors = Course_validate course
          in if errors \<noteq> []
             then
               let course = course\<lparr>c_name := original_name, c_credits := original_credits,
                                    c_instructor := original_instructor\<rparr>
               in (Inl (ValueError (''Invalid update data: '' @ join errors)),
                   st\<lparr>courses := (courses st)[i := course]\<rparr>)
             else (Inr course,
                   CourseService_save now (st\<lparr>courses := (courses st)[i := course]\<rparr>)))"

definition delete_course :: "datetime \<Rightarrow> system \<Rightarrow> string \<Rightarrow> bool \<times> system" where
  "delete_course now st code =
     (case course_position st code of
        Some i \<Rightarrow>
          (True, CourseService_save now (st\<lparr>courses := remove_at i (courses st)\<rparr>))
      | None \<Rightarrow> (False, st))"

definition search_courses ::
  "system \<Rightarrow> string option \<Rightarrow> string option \<Rightarrow> string option \<Rightarrow> Course list" where
  "search_courses st code n ins =
     (let results = courses st;
          results = (if truthy code
                     then filter (\<lambda>c. str_in (lower (the code)) (lower (c_course_code c))) results
                     else results);
          results = (if truthy n
                     then filter (\<lambda>c. str_in (lower (the n)) (lower (c_name c))) results
                     else results);
          results = (if truthy ins
                     then filter (\<lambda>c. str_in (lower (the ins)) (lower (c_instructor c))) results
                     else results)
      in results)"

subsection \<open>services/enrollment_service.py\<close>

definition EnrollmentService_save :: "datetime \<Rightarrow> system \<Rightarrow> system" where
  "EnrollmentService_save now st =
     st\<lparr>files := save_enrollments now (files st) (enrollments st)\<rparr>"

text \<open>\<^verbatim>\<open>EnrollmentService._get_enrollment\<close>, as a position.\<close>

definition enrollment_position :: "system \<Rightarrow> string \<Rightarrow> string \<Rightarrow> nat option" where
  "enrollment_position st sid code =
     first_index (\<lambda>e. e_student_id e = sid \<and> e_course_code e = code) (enrollments st)"

definition get_enrollment :: "system \<Rightarrow> string \<Rightarrow> string \<Rightarrow> Enrollment option" where
  "get_enrollment st sid code =
     map_option (\<lambda>i. enrollments st ! i) (enrollment_position st sid code)"

text \<open>\<^verbatim>\<open>EnrollmentService.enroll_student\<close>. The duplicate loop raises at the first
  enrollment of the pair, that is when there is one.\<close>

definition enroll_student ::
  "datetime \<Rightarrow> system \<Rightarrow> string \<Rightarrow> string \<Rightarrow> (error + Enrollment) \<times> system" where
  "enroll_student now st sid code =
     (if get_student st sid = None
      then (Inl (ValueError (''Student with ID '' @ sid @ '' not found.'')), st)
      else if get_course st code = None
      then (Inl (ValueError (''Course with code '' @ code @ '' not found.'')), st)
      else if \<exists>e \<in> set (enrollments st). e_student_id e = sid \<and> e_course_code e = code
      then (Inl (ValueError (''Student '' @ sid @ '' is already enrolled in '' @ code @ ''.'')), st)
      else
        let enrollment = Enrollment_init now sid code None None;
            errors = Enrollment_validate enrollment
        in if errors \<noteq> []
           then (Inl (ValueError (''Invalid enrollment data: '' @ join errors)), st)
           else (Inr enrollment,
                 EnrollmentService_save now
                   (st\<lparr>enrollments := enrollments st @ [enrollment]\<rparr>)))"

text \<open>\<^verbatim>\<open>EnrollmentService.assign_grade\<close>.\<close>

definition assign_grade ::
  "datetime \<Rightarrow> system \<Rightarrow> string \<Rightarrow> string \<Rightarrow> rat \<Rightarrow> (error + Enrollment) \<times> system" where
  "assign_grade now st sid code g =
     (case enrollment_position st sid code of
        None \<Rightarrow>
          (Inl (ValueError (''Student '' @ sid @ '' is not enrolled in course '' @ code @ ''.'')), st)
      | Some i \<Rightarrow>
          let enrollment = enrollments st ! i;
              original_grade = e_grade enrollment;
              enrollment = enrollment\<lparr>e_grade := Some g\<rparr>;
              errors = Enrollment_validate enrollment
          in if errors \<noteq> []
             then
               let enrollment = enrollment\<lparr>e_grade := original_grade\<rparr>
               in (Inl (ValueError (''Invalid grade: '' @ join errors)),
                   st\<lparr>enrollments := (enrollments st)[i := enrollment]\<rparr>)
             else (Inr enrollment,
                   EnrollmentService_save now
                     (st\<lparr>enrollments := (enrollments st)[i := enrollment]\<rparr>)))"

definition unenroll_student :: "datetime \<Rightarrow> system \<Rightarrow> string \<Rightarrow> string \<Rightarrow> bool \<times> system" where
  "unenroll_student now st sid code =
     (case enrollment_position st sid code of
        Some i \<Rightarrow>
          (True, EnrollmentService_save now (st\<lparr>enrollments := remove_at i (enrollments st)\<rparr>))
      | None \<Rightarrow> (False, st))"





subsection \<open>The specification's reading of the average\<close>




subsection \<open>The specification's reading of a match that ignores case\<close>

text \<open>The capital letters below code point 256 are A to Z and the capitals of Latin-1
  (0xC0 to 0xDE without the multiplication sign); the small letter of a capital lies 32
  code points above it. Two characters are the same letter when they are equal or one is
  the capital of the other, and a text occurs in a field, case ignored, when the field
  has a block of that length whose characters are letter for letter the same.\<close>

definition capital_codes :: "nat list" where
  "capital_codes = [65..<91] @ [192..<215] @ [216..<223]"

definition case_pairs :: "(char \<times> char) list" where
  "case_pairs = map (\<lambda>n. (char_of n, char_of (n + 32))) capital_codes"

definition same_letter :: "char \<Rightarrow> char \<Rightarrow> bool" where
  "same_letter a b = (a = b \<or> (a, b) \<in> set case_pairs \<or> (b, a) \<in> set case_pairs)"

definition occurs_ignoring_case :: "string \<Rightarrow> string \<Rightarrow> bool" where
  "occurs_ignoring_case v field =
     (\<exists>p m q. field = p @ m @ q \<and> list_all2 same_letter v m)"

subsection \<open>Sequences of operations on a store\<close>

text \<open>The calls a collaborator can make on the student service and on the course
  service, each with the clock's value during the call, and the state a sequence of
  calls leaves. \<^verbatim>\<open>get\<close>, \<^verbatim>\<open>list\<close> and \<^verbatim>\<open>search\<close> return without assigning to
  anything.\<close>

datatype student_op =
    CreateStudent string string string string
  | GetStudent string
  | ListStudents
  | UpdateStudent string "string option" "string option" "string option"
  | DeleteStudent string
  | SearchStudents "string option" "string option"

fun student_step :: "system \<Rightarrow> datetime \<times> student_op \<Rightarrow> system" where
  "student_step st (now, CreateStudent sid n em pr) = snd (create_student now st sid n em pr)"
| "student_step st (now, GetStudent sid) = st"
| "student_step st (now, ListStudents) = st"
| "student_step st (now, UpdateStudent sid n em pr) = snd (update_student now st sid n em pr)"
| "student_step st (now, DeleteStudent sid) = snd (delete_student now st sid)"
| "student_step st (now, SearchStudents n pr) = st"

datatype course_op =
    CreateCourse string string int string
  | GetCourse string
  | ListCourses
  | UpdateCourse string "string option" "int option" "string option"
  | DeleteCourse string
  | SearchCourses "string option" "string option" "string option"

fun course_step :: "system \<Rightarrow> datetime \<times> course_op \<Rightarrow> system" where
  "course_step st (now, CreateCourse code n cr ins) = snd (create_course now st code n cr ins)"
| "course_step st (now, GetCourse code) = st"
| "course_step st (now, ListCourses) = st"
| "course_step st (now, UpdateCourse code n cr ins) = snd (update_course now st code n cr ins)"
| "course_step st (now, DeleteCourse code) = snd (delete_course now st code)"
| "course_step st (now, SearchCourses code n ins) = st"

subsection \<open>A small data set\<close>

text \<open>The entities of the specification's scenario, for the concrete instances below.\<close>

definition clock :: datetime where
  "clock = \<lparr>dt_year = 2024, dt_month = 1, dt_day = 15, dt_hour = 10, dt_minute = 30,
            dt_second = 0, dt_microsecond = 0\<rparr>"

definition jane :: Student where
  "jane = \<lparr>s_student_id = ''P1'', s_name = ''Jane'', s_email = ''jane@x.com'', s_program = ''CS''\<rparr>"

definition john :: Student where
  "john = \<lparr>s_student_id = ''P2'', s_name = ''John Doe'', s_email = ''john@example.com'',
           s_program = ''Math''\<rparr>"

definition intro :: Course where
  "intro = \<lparr>c_course_code = ''ABC1234'', c_name = ''Intro'', c_credits = 3, c_instructor = ''Dr. X''\<rparr>"

definition jane_intro :: Enrollment where
  "jane_intro = \<lparr>e_student_id = ''P1'', e_course_code = ''ABC1234'', e_grade = None,
                 e_enrollment_date = clock\<rparr>"

definition campus :: system where
  "campus = \<lparr>students = [jane], courses = [intro], enrollments = [jane_intro],
             files = Map.empty\<rparr>"

definition logic :: Course where
  "logic = \<lparr>c_course_code = ''XYZ0001'', c_name = ''Logic'', c_credits = 6, c_instructor = ''Dr. Z''\<rparr>"


text \<open>A state as \<^verbatim>\<open>load_students\<close> builds it from a file whose one student has the empty
  string as identifier: loading does not validate.\<close>

definition nameless :: Student where
  "nameless = \<lparr>s_student_id = [], s_name = ''Jane'', s_email = ''jane@x.com'', s_program = ''CS''\<rparr>"

definition nameless_campus :: system where
  "nameless_campus = \<lparr>students = [nameless], courses = [intro], enrollments = [],
                      files = Map.empty\<rparr>"

subsection \<open>The specification's reading of a course code\<close>

text \<open>The format as the specification and the docstring of
  \<^verbatim>\<open>Course._is_valid_course_code\<close> word it: exactly three uppercase letters followed by
  exactly four digits, and nothing else.\<close>

definition exact_course_code :: "string \<Rightarrow> bool" where
  "exact_course_code code =
     (length code = 7 \<and> list_all upper_AZ (take 3 code) \<and> list_all digit_09 (drop 3 code))"

text \<open>A course whose code ends with a line feed.\<close>

definition newline_course :: Course where
  "newline_course = \<lparr>c_course_code = ''ABC1234'' @ [CHR 0x0A], c_name = ''Intro'',
                      c_credits = 3, c_instructor = ''Dr. X''\<rparr>"

section \<open>Letter grades\<close>

lemma letter_grade_of_score:
  "calculate_letter_grade e = band_letter (e_grade e)"
  by (cases "e_grade e")
     (simp_all add: calculate_letter_grade_def band_letter_def band_table_def)

lemma letter_grade_bands:
  "(calculate_letter_grade (e\<lparr>e_grade := Some g\<rparr>) = ''A+'') = (90 \<le> g)"
  "(calculate_letter_grade (e\<lparr>e_grade := Some g\<rparr>) = ''A'') = (85 \<le> g \<and> g < 90)"
  "(calculate_letter_grade (e\<lparr>e_grade := Some g\<rparr>) = ''B+'') = (80 \<le> g \<and> g < 85)"
  "(calculate_letter_grade (e\<lparr>e_grade := Some g\<rparr>) = ''B'') = (75 \<le> g \<and> g < 80)"
  "(calculate_letter_grade (e\<lparr>e_grade := Some g\<rparr>) = ''C+'') = (70 \<le> g \<and> g < 75)"
  "(calculate_letter_grade (e\<lparr>e_grade := Some g\<rparr>) = ''C'') = (65 \<le> g \<and> g < 70)"
  "(calculate_letter_grade (e\<lparr>e_grade := Some g\<rparr>) = ''D+'') = (60 \<le> g \<and> g < 65)"
  "(calculate_letter_grade (e\<lparr>e_grade := Some g\<rparr>) = ''D'') = (55 \<le> g \<and> g < 60)"
  "(calculate_letter_grade (e\<lparr>e_grade := Some g\<rparr>) = ''F'') = (g < 55)"
  by (auto simp add: calculate_letter_grade_def)

lemma letter_grade_boundaries:
  "map (\<lambda>g. calculate_letter_grade (e\<lparr>e_grade := g\<rparr>))
     [Some 90, Some 89, Some 84, Some 79, Some 74, Some 69, Some 64, Some 59, Some 54, None]
   = [''A+'', ''A'', ''B+'', ''B'', ''C+'', ''C'', ''D+'', ''D'', ''F'', ''N/A'']"
  by (simp add: calculate_letter_grade_def)

text \<open>
  Claim C5. The letter of a record is the one the band table gives: an absent score is
  N/A; a present score gets the letter of the highest band whose inclusive lower bound it
  reaches (90 A+, 85 A, 80 B+, 75 B, 70 C+, 65 C, 60 D+, 55 D) and F when it reaches none.
  Read band by band: the letter is A+ exactly from 90 up, A exactly on [85, 90), and so on
  down to F exactly below 55. At the boundary scores 90, 89, 84, 79, 74, 69, 64, 59, 54
  the letters are A+, A, B+, B, C+, C, D+, D, F.
\<close>

theorem letter_grade_is_band_table:
  "calculate_letter_grade e = band_letter (e_grade e)
   \<and> (calculate_letter_grade (e\<lparr>e_grade := None\<rparr>) = ''N/A'')
   \<and> ((calculate_letter_grade (e\<lparr>e_grade := Some g\<rparr>) = ''A+'') = (90 \<le> g))
   \<and> ((calculate_letter_grade (e\<lparr>e_grade := Some g\<rparr>) = ''A'') = (85 \<le> g \<and> g < 90))
   \<and> ((calculate_letter_grade (e\<lparr>e_grade := Some g\<rparr>) = ''B+'') = (80 \<le> g \<and> g < 85))
   \<and> ((calculate_letter_grade (e\<lparr>e_grade := Some g\<rparr>) = ''B'') = (75 \<le> g \<and> g < 80))
   \<and> ((calculate_letter_grade (e\<lparr>e_grade := Some g\<rparr>) = ''C+'') = (70 \<le> g \<and> g < 75))
   \<and> ((calculate_letter_grade (e\<lparr>e_grade := Some g\<rparr>) = ''C'') = (65 \<le> g \<and> g < 70))
   \<and> ((calculate_letter_grade (e\<lparr>e_grade := Some g\<rparr>) = ''D+'') = (60 \<le> g \<and> g < 65))
   \<and> ((calculate_letter_grade (e\<lparr>e_grade := Some g\<rparr>) = ''D'') = (55 \<le> g \<and> g < 60))
   \<and> ((calculate_letter_grade (e\<lparr>e_grade := Some g\<rparr>) = ''F'') = (g < 55))
   \<and> map (\<lambda>g. calculate_letter_grade (e\<lparr>e_grade := g\<rparr>))
         [Some 90, Some 89, Some 84, Some 79, Some 74, Some 69, Some 64, Some 59, Some 54]
       = [''A+'', ''A'', ''B+'', ''B'', ''C+'', ''C'', ''D+'', ''D'', ''F'']"
proof -
  have table: "calculate_letter_grade e = band_letter (e_grade e)"
    by (rule letter_grade_of_score)
  have absent: "calculate_letter_grade (e\<lparr>e_grade := None\<rparr>) = ''N/A''"
    by (simp add: calculate_letter_grade_def)
  from table absent letter_grade_bands [where e = e and g = g]
    letter_grade_boundaries [where e = e]
  show ?thesis by simp
qed

section \<open>Positions in a list\<close>

lemma first_index_None: "(first_index P xs = None) = (\<forall>x \<in> set xs. \<not> P x)"
  by (induction xs) auto

lemma first_index_Some:
  "first_index P xs = Some i \<Longrightarrow> i < length xs \<and> P (xs ! i) \<and> (\<forall>j < i. \<not> P (xs ! j))"
proof (induction xs arbitrary: i)
  case Nil
  then show ?case by simp
next
  case (Cons x xs)
  show ?case
  proof (cases "P x")
    case True
    with Cons.prems show ?thesis by simp
  next
    case False
    with Cons.prems obtain k where k: "first_index P xs = Some k" "i = Suc k"
      by auto
    from Cons.IH [OF k(1)] False k(2) show ?thesis
      by (auto simp add: nth_Cons split: nat.splits)
  qed
qed

section \<open>Averages\<close>

subsection \<open>Rounding to a double\<close>






subsection \<open>Sums of whole numbers are exact\<close>



subsection \<open>The average of the scores present\<close>












section \<open>Creation and the uniqueness of keys\<close>

lemma get_student_None: "(get_student st sid = None) = (sid \<notin> s_student_id ` set (students st))"
  by (auto simp add: get_student_def student_position_def first_index_None)

lemma get_course_None: "(get_course st code = None) = (code \<notin> c_course_code ` set (courses st))"
  by (auto simp add: get_course_def course_position_def first_index_None)

text \<open>
  Claim C3. Creating a person whose identifier, or an offering whose code, is already in
  the collection fails with the duplicate error and leaves the whole state as it was: the
  collection and the data directory are unchanged. The other fields play no part, so the
  duplicate check comes before validation (the instance below creates with fields that do
  not validate and still gets the duplicate error).
\<close>

theorem create_rejects_present_key:
  "(sid \<in> s_student_id ` set (students st) \<longrightarrow>
      create_student now st sid n em pr =
        (Inl (ValueError (''Student with ID '' @ sid @ '' already exists.'')), st))
   \<and> (code \<in> c_course_code ` set (courses st) \<longrightarrow>
      create_course now st code cn cr ins =
        (Inl (ValueError (''Course with code '' @ code @ '' already exists.'')), st))"
  by (simp add: create_student_def create_course_def get_student_None get_course_None)

theorem create_rejects_present_key_witness:
  "create_student clock campus ''P1'' '''' ''not an email'' '''' =
     (Inl (ValueError ''Student with ID P1 already exists.''), campus)
   \<and> create_course clock campus ''ABC1234'' '''' 0 '''' =
     (Inl (ValueError ''Course with code ABC1234 already exists.''), campus)
   \<and> Student_validate \<lparr>s_student_id = ''P1'', s_name = '''', s_email = ''not an email'',
                         s_program = ''''\<rparr> \<noteq> []
   \<and> Course_validate \<lparr>c_course_code = ''ABC1234'', c_name = '''', c_credits = 0,
                        c_instructor = ''''\<rparr> \<noteq> []"
proof -
  note t = create_rejects_present_key [where st = campus and sid = "''P1''" and code = "''ABC1234''"
      and now = clock and n = "''''" and em = "''not an email''" and pr = "''''"
      and cn = "''''" and cr = 0 and ins = "''''"]
  have hs: "''P1'' \<in> s_student_id ` set (students campus)"
    by (simp add: campus_def jane_def)
  have hc: "''ABC1234'' \<in> c_course_code ` set (courses campus)"
    by (simp add: campus_def intro_def)
  have vs: "Student_validate \<lparr>s_student_id = ''P1'', s_name = '''', s_email = ''not an email'',
                         s_program = ''''\<rparr> \<noteq> []"
    by (simp add: Student_validate_def blank_def)
  have vc: "Course_validate \<lparr>c_course_code = ''ABC1234'', c_name = '''', c_credits = 0,
                        c_instructor = ''''\<rparr> \<noteq> []"
    by (simp add: Course_validate_def blank_def)
  from t hs hc vs vc show ?thesis by simp
qed

section \<open>Search\<close>

lemma str_in_iff: "str_in a b = (\<exists>p q. b = p @ a @ q)"
proof (induction b)
  case Nil
  then show ?case by auto
next
  case (Cons c cs)
  show ?case
  proof
    assume "str_in a (c # cs)"
    then consider "prefix a (c # cs)" | "str_in a cs" by auto
    then show "\<exists>p q. c # cs = p @ a @ q"
    proof cases
      case 1
      then obtain q where "c # cs = a @ q" by (auto simp add: prefix_def)
      then have "c # cs = [] @ a @ q" by simp
      then show ?thesis by blast
    next
      case 2
      with Cons.IH obtain p q where "cs = p @ a @ q" by auto
      then have "c # cs = (c # p) @ a @ q" by simp
      then show ?thesis by blast
    qed
  next
    assume "\<exists>p q. c # cs = p @ a @ q"
    then obtain p q where pq: "c # cs = p @ a @ q" by auto
    show "str_in a (c # cs)"
    proof (cases p)
      case Nil
      with pq have "prefix a (c # cs)" by (simp add: prefix_def)
      then show ?thesis by simp
    next
      case (Cons x p')
      with pq have "cs = p' @ a @ q" by simp
      with Cons.IH have "str_in a cs" by auto
      then show ?thesis by simp
    qed
  qed
qed

lemma str_in_empty: "str_in [] b"
  by (cases b) simp_all

lemma lower_Nil: "lower [] = []"
  by (simp add: lower_def)

text \<open>
  Claim C9. An empty string as a criterion is no criterion: replacing it by an absent one
  does not change the result of a search, and a search whose criteria are all empty
  strings returns the whole collection in its order.
\<close>

theorem search_empty_criterion_is_no_criterion:
  "search_students st (Some []) pr = search_students st None pr
   \<and> search_students st n (Some []) = search_students st n None
   \<and> search_courses st (Some []) cn ins = search_courses st None cn ins
   \<and> search_courses st code (Some []) ins = search_courses st code None ins
   \<and> search_courses st code cn (Some []) = search_courses st code cn None
   \<and> search_students st (Some []) (Some []) = students st
   \<and> search_courses st (Some []) (Some []) (Some []) = courses st"
  by (simp add: search_students_def search_courses_def truthy_def)

subsection \<open>Lower-casing and the match that ignores case\<close>

lemma in_capital_codes:
  "(n \<in> set capital_codes) = ((65 \<le> n \<and> n \<le> 90) \<or> (192 \<le> n \<and> n \<le> 222 \<and> n \<noteq> 215))"
  unfolding capital_codes_def set_append set_upt by auto

lemma code_of_lower_char:
  "(of_char (lower_char c) :: nat) =
     (if of_char c \<in> set capital_codes then of_char c + 32 else of_char c)"
  unfolding in_capital_codes by (simp add: lower_char_def Let_def)

lemma code_small: "n < 256 \<Longrightarrow> (of_char (char_of n) :: nat) = n"
  by simp

lemma in_case_pairs_1:
  assumes "(a, b) \<in> set case_pairs"
  shows "(of_char a :: nat) \<in> set capital_codes \<and> (of_char b :: nat) = of_char a + 32"
proof -
  from assms obtain n where n: "n \<in> set capital_codes" "a = char_of n" "b = char_of (n + 32)"
    unfolding case_pairs_def set_map by blast
  from n(1) have "n < 256" "n + 32 < 256" unfolding in_capital_codes by auto
  then have "(of_char (char_of n) :: nat) = n" "(of_char (char_of (n + 32)) :: nat) = n + 32"
    by (simp_all only: code_small)
  with n show ?thesis by (simp only:)
qed

lemma in_case_pairs_2:
  assumes "(of_char a :: nat) \<in> set capital_codes" "(of_char b :: nat) = of_char a + 32"
  shows "(a, b) \<in> set case_pairs"
proof -
  have "char_of (of_char a :: nat) = a" by simp
  moreover have "char_of (of_char b :: nat) = b" by simp
  then have "char_of (of_char a + 32 :: nat) = b" by (simp only: assms(2))
  ultimately have "(\<lambda>n. (char_of n, char_of (n + 32))) (of_char a :: nat) = (a, b)"
    by (simp only:)
  then have "(a, b) \<in> (\<lambda>n. (char_of n, char_of (n + 32))) ` set capital_codes"
    using assms(1) by (rule image_eqI [OF sym])
  then show ?thesis
    by (simp only: case_pairs_def set_map)
qed

lemma in_case_pairs:
  "((a, b) \<in> set case_pairs) =
     ((of_char a :: nat) \<in> set capital_codes \<and> (of_char b :: nat) = of_char a + 32)"
  using in_case_pairs_1 [of a b] in_case_pairs_2 [of a b] by blast

text \<open>Two characters have the same lower case exactly when they are the same letter.\<close>

lemma lower_char_eq: "(lower_char a = lower_char b) = same_letter a b"
proof -
  define x y where "x = (of_char a :: nat)" and "y = (of_char b :: nat)"
  have inj: "(a = b) = (x = y)"
    unfolding x_def y_def by simp
  have "(lower_char a = lower_char b) =
      ((of_char (lower_char a) :: nat) = of_char (lower_char b))"
    by simp
  also have "\<dots> = ((if x \<in> set capital_codes then x + 32 else x) =
      (if y \<in> set capital_codes then y + 32 else y))"
    by (simp only: code_of_lower_char x_def y_def)
  also have "\<dots> = (x = y \<or> (x \<in> set capital_codes \<and> y = x + 32)
      \<or> (y \<in> set capital_codes \<and> x = y + 32))"
    unfolding in_capital_codes by presburger
  also have "\<dots> = same_letter a b"
    by (simp only: same_letter_def in_case_pairs inj x_def y_def)
  finally show ?thesis .
qed

lemma map_lower_eq: "(map lower_char m = map lower_char v) = list_all2 same_letter v m"
proof (induction v arbitrary: m)
  case Nil
  then show ?case by simp
next
  case (Cons x v)
  show ?case
  proof (cases m)
    case Nil
    then show ?thesis by simp
  next
    case (Cons y m')
    have "(lower_char y = lower_char x) = same_letter x y"
      using lower_char_eq [of x y] by auto
    with Cons Cons.IH [of m'] show ?thesis by simp
  qed
qed

text \<open>The test of the code, \<^verbatim>\<open>v.lower() in field.lower()\<close>, is the match that ignores
  case.\<close>

lemma lower_occurs: "str_in (lower v) (lower field) = occurs_ignoring_case v field"
proof -
  have "str_in (lower v) (lower field) =
      (\<exists>p q. map lower_char field = p @ map lower_char v @ q)"
    by (simp add: str_in_iff lower_def)
  also have "\<dots> = (\<exists>p m q. field = p @ m @ q \<and> map lower_char m = map lower_char v)"
  proof
    assume "\<exists>p q. map lower_char field = p @ map lower_char v @ q"
    then obtain p q where "map lower_char field = p @ (map lower_char v @ q)" by auto
    then obtain p' r where r: "field = p' @ r" "map lower_char r = map lower_char v @ q"
      by (metis map_eq_append_conv)
    then obtain m q' where "r = m @ q'" "map lower_char m = map lower_char v"
      by (metis map_eq_append_conv)
    with r(1) show "\<exists>p m q. field = p @ m @ q \<and> map lower_char m = map lower_char v"
      by blast
  next
    assume "\<exists>p m q. field = p @ m @ q \<and> map lower_char m = map lower_char v"
    then obtain p m q where "field = p @ m @ q" "map lower_char m = map lower_char v" by blast
    then have "map lower_char field = map lower_char p @ map lower_char v @ map lower_char q"
      by simp
    then show "\<exists>p q. map lower_char field = p @ map lower_char v @ q" by blast
  qed
  finally show ?thesis
    by (simp add: occurs_ignoring_case_def map_lower_eq)
qed

lemma lower_examples:
  "lower ''Hello, World 42'' = ''hello, world 42''"
  "same_letter CHR ''J'' CHR ''j''" "\<not> same_letter CHR ''J'' CHR ''k''"
  "\<not> same_letter CHR ''1'' CHR ''Q''"
  unfolding lower_char_eq [symmetric] by code_simp+

lemma search_students_lower:
  "search_students st n pr =
     filter (\<lambda>s. (case n of None \<Rightarrow> True | Some v \<Rightarrow> str_in (lower v) (lower (s_name s)))
               \<and> (case pr of None \<Rightarrow> True | Some v \<Rightarrow> v = [] \<or> s_program s = v))
       (students st)"
  by (cases n; cases pr)
     (simp_all add: search_students_def truthy_def Let_def str_in_empty lower_Nil)

lemma search_courses_lower:
  "search_courses st code cn ins =
     filter (\<lambda>c. (case code of None \<Rightarrow> True | Some v \<Rightarrow> str_in (lower v) (lower (c_course_code c)))
               \<and> (case cn of None \<Rightarrow> True | Some v \<Rightarrow> str_in (lower v) (lower (c_name c)))
               \<and> (case ins of None \<Rightarrow> True | Some v \<Rightarrow> str_in (lower v) (lower (c_instructor c))))
       (courses st)"
  by (cases code; cases cn; cases ins)
     (simp_all add: search_courses_def truthy_def Let_def str_in_empty lower_Nil)

text \<open>
  Claim C8. A search returns, in the collection's order, exactly the entities that meet
  every criterion given: a criterion on a person's name, or on an offering's code, name or
  instructor, is met when its text occurs in the field as a contiguous block, the case of
  letters ignored, and the criterion on a person's program when the field equals it (an
  empty program criterion counts as not given). The search is a function of the state
  and returns no new state.
\<close>

theorem search_is_filter_of_all_criteria:
  "search_students st n pr =
     filter (\<lambda>s. (case n of None \<Rightarrow> True | Some v \<Rightarrow> occurs_ignoring_case v (s_name s))
               \<and> (case pr of None \<Rightarrow> True | Some v \<Rightarrow> v = [] \<or> s_program s = v))
       (students st)
   \<and> search_courses st code cn ins =
     filter (\<lambda>c. (case code of None \<Rightarrow> True | Some v \<Rightarrow> occurs_ignoring_case v (c_course_code c))
               \<and> (case cn of None \<Rightarrow> True | Some v \<Rightarrow> occurs_ignoring_case v (c_name c))
               \<and> (case ins of None \<Rightarrow> True | Some v \<Rightarrow> occurs_ignoring_case v (c_instructor c)))
       (courses st)
   \<and> str_in (lower a) (lower b) = occurs_ignoring_case a b
   \<and> str_in a b = (\<exists>p q. b = p @ a @ q)"
proof -
  have s: "search_students st n pr =
     filter (\<lambda>s. (case n of None \<Rightarrow> True | Some v \<Rightarrow> occurs_ignoring_case v (s_name s))
               \<and> (case pr of None \<Rightarrow> True | Some v \<Rightarrow> v = [] \<or> s_program s = v))
       (students st)"
    by (simp only: search_students_lower lower_occurs)
  have c: "search_courses st code cn ins =
     filter (\<lambda>c. (case code of None \<Rightarrow> True | Some v \<Rightarrow> occurs_ignoring_case v (c_course_code c))
               \<and> (case cn of None \<Rightarrow> True | Some v \<Rightarrow> occurs_ignoring_case v (c_name c))
               \<and> (case ins of None \<Rightarrow> True | Some v \<Rightarrow> occurs_ignoring_case v (c_instructor c)))
       (courses st)"
    by (simp only: search_courses_lower lower_occurs)
  from s c lower_occurs [of a b] str_in_iff [of a b] show ?thesis by blast
qed

theorem search_is_filter_of_all_criteria_witness:
  "search_students (campus\<lparr>students := [jane, john]\<rparr>) (Some ''JANE'') None = [jane]
   \<and> search_students (campus\<lparr>students := [jane, john]\<rparr>) (Some ''dOe'') None = [john]
   \<and> search_students (campus\<lparr>students := [jane, john]\<rparr>) (Some ''zzz'') None = []
   \<and> search_students (campus\<lparr>students := [jane, john]\<rparr>) (Some ''j'') None = [jane, john]
   \<and> search_students (campus\<lparr>students := [jane, john]\<rparr>) (Some ''JA'') (Some ''CS'') = [jane]
   \<and> search_students (campus\<lparr>students := [jane, john]\<rparr>) None (Some ''cs'') = []
   \<and> search_courses (campus\<lparr>courses := [intro, logic]\<rparr>) (Some ''xyz'') None None = [logic]
   \<and> search_courses (campus\<lparr>courses := [intro, logic]\<rparr>) None (Some ''INTRO'') None = [intro]
   \<and> search_courses (campus\<lparr>courses := [intro, logic]\<rparr>) None None (Some ''dr. z'') = [logic]
   \<and> search_courses (campus\<lparr>courses := [intro, logic]\<rparr>) (Some ''abc'') None (Some ''DR'') = [intro]"
proof -
  note s = search_is_filter_of_all_criteria [THEN conjunct1]
  note c = search_is_filter_of_all_criteria [THEN conjunct2, THEN conjunct1]
  have 1: "search_students (campus\<lparr>students := [jane, john]\<rparr>) (Some ''JANE'') None = [jane]"
    unfolding s lower_occurs [symmetric] by code_simp
  have 2: "search_students (campus\<lparr>students := [jane, john]\<rparr>) (Some ''dOe'') None = [john]"
    unfolding s lower_occurs [symmetric] by code_simp
  have 3: "search_students (campus\<lparr>students := [jane, john]\<rparr>) (Some ''zzz'') None = []"
    unfolding s lower_occurs [symmetric] by code_simp
  have 4: "search_students (campus\<lparr>students := [jane, john]\<rparr>) (Some ''j'') None = [jane, john]"
    unfolding s lower_occurs [symmetric] by code_simp
  have 5: "search_students (campus\<lparr>students := [jane, john]\<rparr>) (Some ''JA'') (Some ''CS'') = [jane]"
    unfolding s lower_occurs [symmetric] by code_simp
  have 6: "search_students (campus\<lparr>students := [jane, john]\<rparr>) None (Some ''cs'') = []"
    unfolding s lower_occurs [symmetric] by code_simp
  have 7: "search_courses (campus\<lparr>courses := [intro, logic]\<rparr>) (Some ''xyz'') None None = [logic]"
    unfolding c lower_occurs [symmetric] by code_simp
  have 8: "search_courses (campus\<lparr>courses := [intro, logic]\<rparr>) None (Some ''INTRO'') None = [intro]"
    unfolding c lower_occurs [symmetric] by code_simp
  have 9: "search_courses (campus\<lparr>courses := [intro, logic]\<rparr>) None None (Some ''dr. z'') = [logic]"
    unfolding c lower_occurs [symmetric] by code_simp
  have 10: "search_courses (campus\<lparr>courses := [intro, logic]\<rparr>) (Some ''abc'') None (Some ''DR'') = [intro]"
    unfolding c lower_occurs [symmetric] by code_simp
  from 1 2 3 4 5 6 7 8 9 10 show ?thesis by blast
qed

section \<open>Failed updates\<close>

lemma update_student_failure:
  assumes "update_student now st sid n em pr = (Inl err, st')"
  shows "st' = st"
proof (cases "student_position st sid")
  case None
  with assms show ?thesis by (simp add: update_student_def)
next
  case (Some i)
  define s where "s = students st ! i"
  have undo: "s'\<lparr>s_name := s_name s, s_email := s_email s, s_program := s_program s\<rparr> = s"
    if "s_student_id s' = s_student_id s" for s' :: Student
    using that by (cases s, cases s') simp
  have keep: "(students st)[i := s] = students st"
    by (simp add: s_def)
  from assms Some show ?thesis
    by (cases n; cases em; cases pr)
       (simp_all add: update_student_def Let_def s_def [symmetric] undo keep
          split: if_splits)
qed

lemma update_course_failure:
  assumes "update_course now st code n cr ins = (Inl err, st')"
  shows "st' = st"
proof (cases "course_position st code")
  case None
  with assms show ?thesis by (simp add: update_course_def)
next
  case (Some i)
  define c where "c = courses st ! i"
  have undo: "c'\<lparr>c_name := c_name c, c_credits := c_credits c, c_instructor := c_instructor c\<rparr> = c"
    if "c_course_code c' = c_course_code c" for c' :: Course
    using that by (cases c, cases c') simp
  have keep: "(courses st)[i := c] = courses st"
    by (simp add: c_def)
  from assms Some show ?thesis
    by (cases n; cases cr; cases ins)
       (simp_all add: update_course_def Let_def c_def [symmetric] undo keep
          split: if_splits)
qed

lemma assign_grade_failure:
  assumes "assign_grade now st sid code g = (Inl err, st')"
  shows "st' = st"
proof (cases "enrollment_position st sid code")
  case None
  with assms show ?thesis by (simp add: assign_grade_def)
next
  case (Some i)
  from assms Some show ?thesis
    by (simp add: assign_grade_def Let_def split: if_splits)
qed

text \<open>
  Claim C1. An update of a person or of an offering, or the assignment of a score, that
  fails leaves the state exactly as it was: every field of the target entity has its
  former value, the collections are the same lists, and the data directory has not been
  written. This holds for every state and all supplied values, and for the validation
  failure in particular (the instance below fails validation on each of the three).
\<close>

theorem failed_update_changes_nothing:
  "(update_student now st sid n em pr = (Inl err, st') \<longrightarrow> st' = st)
   \<and> (update_course now st code cn cr ins = (Inl err, st') \<longrightarrow> st' = st)
   \<and> (assign_grade now st sid code g = (Inl err, st') \<longrightarrow> st' = st)"
proof (intro conjI impI)
  assume "update_student now st sid n em pr = (Inl err, st')"
  then show "st' = st" by (rule update_student_failure)
next
  assume "update_course now st code cn cr ins = (Inl err, st')"
  then show "st' = st" by (rule update_course_failure)
next
  assume "assign_grade now st sid code g = (Inl err, st')"
  then show "st' = st" by (rule assign_grade_failure)
qed

theorem failed_update_changes_nothing_witness:
  "update_student clock campus ''P1'' (Some ''Jane Roe'') (Some ''jane at x'') None =
     (Inl (ValueError ''Invalid update data: Email format is invalid''), campus)
   \<and> update_course clock campus ''ABC1234'' (Some '' '') (Some 9) None =
     (Inl (ValueError
        ''Invalid update data: Course name is required and cannot be empty; Credits must be between 1 and 6''),
      campus)
   \<and> assign_grade clock campus ''P1'' ''ABC1234'' 101 =
     (Inl (ValueError ''Invalid grade: Grade must be between 0 and 100''), campus)"
proof -
  have s: "fst (update_student clock campus ''P1'' (Some ''Jane Roe'') (Some ''jane at x'') None) =
     Inl (ValueError ''Invalid update data: Email format is invalid'')"
    by code_simp
  have c: "fst (update_course clock campus ''ABC1234'' (Some '' '') (Some 9) None) =
     Inl (ValueError
        ''Invalid update data: Course name is required and cannot be empty; Credits must be between 1 and 6'')"
    by code_simp
  have e: "fst (assign_grade clock campus ''P1'' ''ABC1234'' 101) =
     Inl (ValueError ''Invalid grade: Grade must be between 0 and 100'')"
    by code_simp
  note t = failed_update_changes_nothing
  from s t [where now = clock and st = campus and sid = "''P1''" and n = "Some ''Jane Roe''"
      and em = "Some ''jane at x''" and pr = None
      and st' = "snd (update_student clock campus ''P1'' (Some ''Jane Roe'') (Some ''jane at x'') None)"]
  have 1: "snd (update_student clock campus ''P1'' (Some ''Jane Roe'') (Some ''jane at x'') None) = campus"
    by (metis prod.collapse)
  from c t [where now = clock and st = campus and code = "''ABC1234''" and cn = "Some '' ''"
      and cr = "Some 9" and ins = None
      and st' = "snd (update_course clock campus ''ABC1234'' (Some '' '') (Some 9) None)"]
  have 2: "snd (update_course clock campus ''ABC1234'' (Some '' '') (Some 9) None) = campus"
    by (metis prod.collapse)
  from e t [where now = clock and st = campus and sid = "''P1''" and code = "''ABC1234''" and g = 101
      and st' = "snd (assign_grade clock campus ''P1'' ''ABC1234'' 101)"]
  have 3: "snd (assign_grade clock campus ''P1'' ''ABC1234'' 101) = campus"
    by (metis prod.collapse)
  from s 1 c 2 e 3 show ?thesis by (simp add: prod_eq_iff)
qed


section \<open>Keys stay distinct\<close>

lemma distinct_remove_at: "distinct (map f xs) \<Longrightarrow> distinct (map f (remove_at i xs))"
proof -
  assume d: "distinct (map f xs)"
  then have "set (take i (map f xs)) \<inter> set (drop (Suc i) (map f xs)) = {}"
    by (rule set_take_disj_set_drop_if_distinct) simp
  with d have "distinct (take i (map f xs) @ drop (Suc i) (map f xs))"
    by (simp add: distinct_take distinct_drop)
  then show ?thesis by (simp add: remove_at_def take_map drop_map)
qed

lemma update_student_keys:
  "map s_student_id (students (snd (update_student now st sid n em pr))) =
   map s_student_id (students st)"
proof (cases "student_position st sid")
  case None
  then show ?thesis by (simp add: update_student_def)
next
  case (Some i)
  then have "i < length (students st)"
    by (auto simp add: student_position_def dest: first_index_Some)
  with Some show ?thesis
    by (cases n; cases em; cases pr)
       (simp_all add: update_student_def Let_def StudentService_save_def map_update
          list_update_same_conv)
qed

lemma update_course_keys:
  "map c_course_code (courses (snd (update_course now st code n cr ins))) =
   map c_course_code (courses st)"
proof (cases "course_position st code")
  case None
  then show ?thesis by (simp add: update_course_def)
next
  case (Some i)
  then have "i < length (courses st)"
    by (auto simp add: course_position_def dest: first_index_Some)
  with Some show ?thesis
    by (cases n; cases cr; cases ins)
       (simp_all add: update_course_def Let_def CourseService_save_def map_update
          list_update_same_conv)
qed

lemma student_step_distinct:
  assumes "distinct (map s_student_id (students st))"
  shows "distinct (map s_student_id (students (student_step st (now, op))))"
proof (cases op)
  case (CreateStudent sid n em pr)
  with assms show ?thesis
    by (auto simp add: create_student_def Let_def StudentService_save_def get_student_None)
next
  case (UpdateStudent sid n em pr)
  with assms show ?thesis by (simp add: update_student_keys)
next
  case (DeleteStudent sid)
  with assms show ?thesis
    by (auto simp add: delete_student_def StudentService_save_def distinct_remove_at
        split: option.splits)
qed (use assms in simp_all)

lemma course_step_distinct:
  assumes "distinct (map c_course_code (courses st))"
  shows "distinct (map c_course_code (courses (course_step st (now, op))))"
proof (cases op)
  case (CreateCourse code n cr ins)
  with assms show ?thesis
    by (auto simp add: create_course_def Let_def CourseService_save_def get_course_None)
next
  case (UpdateCourse code n cr ins)
  with assms show ?thesis by (simp add: update_course_keys)
next
  case (DeleteCourse code)
  with assms show ?thesis
    by (auto simp add: delete_course_def CourseService_save_def distinct_remove_at
        split: option.splits)
qed (use assms in simp_all)

lemma student_ops_distinct:
  "distinct (map s_student_id (students st)) \<Longrightarrow>
   distinct (map s_student_id (students (foldl student_step st ops)))"
proof (induction ops arbitrary: st)
  case Nil
  then show ?case by simp
next
  case (Cons x ops)
  obtain now op where x: "x = (now, op)" by (cases x)
  from Cons.prems have "distinct (map s_student_id (students (student_step st x)))"
    unfolding x by (rule student_step_distinct)
  then show ?case using Cons.IH by simp
qed

lemma course_ops_distinct:
  "distinct (map c_course_code (courses st)) \<Longrightarrow>
   distinct (map c_course_code (courses (foldl course_step st ops)))"
proof (induction ops arbitrary: st)
  case Nil
  then show ?case by simp
next
  case (Cons x ops)
  obtain now op where x: "x = (now, op)" by (cases x)
  from Cons.prems have "distinct (map c_course_code (courses (course_step st x)))"
    unfolding x by (rule course_step_distinct)
  then show ?case using Cons.IH by simp
qed

text \<open>
  Claim C10. No operation changes the key of an entity that exists: an update leaves the
  list of keys of its collection as it was, and a creation is refused for a key that is
  present. Hence, from a collection whose keys are pairwise distinct, every sequence of
  create, get, list, update, delete and search calls leaves a collection whose keys are
  pairwise distinct (the sequence being arbitrary, so after each of its calls).
\<close>

theorem keys_stay_distinct:
  "(distinct (map s_student_id (students st)) \<longrightarrow>
      distinct (map s_student_id (students (foldl student_step st ops))))
   \<and> (distinct (map c_course_code (courses st)) \<longrightarrow>
      distinct (map c_course_code (courses (foldl course_step st cops))))
   \<and> map s_student_id (students (snd (update_student now st sid n em pr))) =
       map s_student_id (students st)
   \<and> map c_course_code (courses (snd (update_course now st code cn cr ins))) =
       map c_course_code (courses st)"
  by (simp add: student_ops_distinct course_ops_distinct update_student_keys update_course_keys)


theorem keys_stay_distinct_witness:
  "distinct (map s_student_id (students campus))
   \<and> distinct (map s_student_id (students (foldl student_step campus
        [(clock, CreateStudent ''P1'' ''Jim'' ''jim@x.com'' ''CS''),
         (clock, CreateStudent ''P2'' ''John Doe'' ''john@example.com'' ''Math''),
         (clock, UpdateStudent ''P2'' (Some ''John Roe'') None None),
         (clock, SearchStudents (Some ''j'') None),
         (clock, DeleteStudent ''P1'')])))
   \<and> distinct (map c_course_code (courses campus))
   \<and> distinct (map c_course_code (courses (foldl course_step campus
        [(clock, CreateCourse ''ABC1234'' ''Again'' 3 ''Dr. Y''),
         (clock, CreateCourse ''XYZ0001'' ''Logic'' 6 ''Dr. Z''),
         (clock, UpdateCourse ''ABC1234'' None (Some 4) None),
         (clock, GetCourse ''XYZ0001'')])))"
proof -
  have hs: "distinct (map s_student_id (students campus))"
    by (simp add: campus_def)
  have hc: "distinct (map c_course_code (courses campus))"
    by (simp add: campus_def)
  note t = keys_stay_distinct [where st = campus]
  from hs hc t show ?thesis by blast
qed

section \<open>Enrolment\<close>

text \<open>
  Claim C2, as stated, fails: where the identifier given is present in the student
  collection, the code is present in the course collection and no record of the pair
  exists, the enrolment is still refused when the new record does not validate. In the
  state below the student collection holds a student whose identifier is the empty
  string; enrolling that identifier raises the validation error and appends nothing.
\<close>

theorem enroll_blank_key_counterexample:
  "get_student nameless_campus '''' = Some nameless
   \<and> get_course nameless_campus ''ABC1234'' = Some intro
   \<and> get_enrollment nameless_campus '''' ''ABC1234'' = None
   \<and> enroll_student clock nameless_campus '''' ''ABC1234'' =
       (Inl (ValueError ''Invalid enrollment data: Student ID is required and cannot be empty''),
        nameless_campus)"
proof -
  have 1: "get_student nameless_campus '''' = Some nameless"
    by (simp add: get_student_def student_position_def nameless_campus_def nameless_def)
  have 2: "get_course nameless_campus ''ABC1234'' = Some intro"
    by (simp add: get_course_def course_position_def nameless_campus_def intro_def)
  have 3: "get_enrollment nameless_campus '''' ''ABC1234'' = None"
    by (simp add: get_enrollment_def enrollment_position_def nameless_campus_def)
  have 4: "enrollments nameless_campus = []"
    by (simp add: nameless_campus_def)
  have 5: "Enrollment_validate (Enrollment_init clock '''' ''ABC1234'' None None) =
      [''Student ID is required and cannot be empty'']"
    by (simp add: Enrollment_validate_def Enrollment_init_def blank_def strip_def is_space_def)
  show ?thesis
    by (simp add: 1 2 3 4 5 enroll_student_def Let_def)
qed

text \<open>
  Claim C2, amended. Enrolling fails with the not-found error when the identifier is not
  in the student collection, and when it is but the code is not in the course collection;
  it fails with the duplicate error when both are present and a record of the pair
  exists. Otherwise, when identifier and code are both non-blank, a record with no score
  and the clock's value is appended, the collection is saved and the record returned; when
  one of them is blank the call fails with the validation error. Every failure leaves the
  state as it was.
\<close>

theorem enroll_student_outcomes:
  "(sid \<notin> s_student_id ` set (students st) \<longrightarrow>
      enroll_student now st sid code =
        (Inl (ValueError (''Student with ID '' @ sid @ '' not found.'')), st))
   \<and> (sid \<in> s_student_id ` set (students st) \<and> code \<notin> c_course_code ` set (courses st) \<longrightarrow>
      enroll_student now st sid code =
        (Inl (ValueError (''Course with code '' @ code @ '' not found.'')), st))
   \<and> (sid \<in> s_student_id ` set (students st) \<and> code \<in> c_course_code ` set (courses st) \<and>
       (\<exists>e \<in> set (enrollments st). e_student_id e = sid \<and> e_course_code e = code) \<longrightarrow>
      enroll_student now st sid code =
        (Inl (ValueError (''Student '' @ sid @ '' is already enrolled in '' @ code @ ''.'')), st))
   \<and> (sid \<in> s_student_id ` set (students st) \<and> code \<in> c_course_code ` set (courses st) \<and>
       \<not> (\<exists>e \<in> set (enrollments st). e_student_id e = sid \<and> e_course_code e = code) \<and>
       \<not> blank sid \<and> \<not> blank code \<longrightarrow>
      enroll_student now st sid code =
        (Inr \<lparr>e_student_id = sid, e_course_code = code, e_grade = None, e_enrollment_date = now\<rparr>,
         st\<lparr>enrollments := enrollments st @
                [\<lparr>e_student_id = sid, e_course_code = code, e_grade = None,
                  e_enrollment_date = now\<rparr>],
            files := save_enrollments now (files st) (enrollments st @
                [\<lparr>e_student_id = sid, e_course_code = code, e_grade = None,
                  e_enrollment_date = now\<rparr>])\<rparr>))
   \<and> (sid \<in> s_student_id ` set (students st) \<and> code \<in> c_course_code ` set (courses st) \<and>
       \<not> (\<exists>e \<in> set (enrollments st). e_student_id e = sid \<and> e_course_code e = code) \<and>
       (blank sid \<or> blank code) \<longrightarrow>
      enroll_student now st sid code =
        (Inl (ValueError (''Invalid enrollment data: '' @
                join (Enrollment_validate (Enrollment_init now sid code None None)))), st)
      \<and> Enrollment_validate (Enrollment_init now sid code None None) \<noteq> [])"
proof -
  have v: "(Enrollment_validate
       \<lparr>e_student_id = sid, e_course_code = code, e_grade = None, e_enrollment_date = now\<rparr> = []) =
      (\<not> blank sid \<and> \<not> blank code)"
    by (simp add: Enrollment_validate_def)
  have i: "Enrollment_init now sid code None None =
      \<lparr>e_student_id = sid, e_course_code = code, e_grade = None, e_enrollment_date = now\<rparr>"
    by (simp add: Enrollment_init_def)
  show ?thesis
    unfolding enroll_student_def Let_def get_student_None get_course_None i v
      EnrollmentService_save_def
    by auto
qed

theorem enroll_student_outcomes_witness:
  "enroll_student clock campus ''P9'' ''ABC1234'' =
     (Inl (ValueError ''Student with ID P9 not found.''), campus)
   \<and> enroll_student clock campus ''P1'' ''XYZ0001'' =
     (Inl (ValueError ''Course with code XYZ0001 not found.''), campus)
   \<and> enroll_student clock campus ''P1'' ''ABC1234'' =
     (Inl (ValueError ''Student P1 is already enrolled in ABC1234.''), campus)
   \<and> enroll_student clock (campus\<lparr>enrollments := []\<rparr>) ''P1'' ''ABC1234'' =
     (Inr jane_intro,
      campus\<lparr>enrollments := [jane_intro],
              files := save_enrollments clock Map.empty [jane_intro]\<rparr>)
   \<and> enroll_student clock nameless_campus [] ''ABC1234'' =
     (Inl (ValueError ''Invalid enrollment data: Student ID is required and cannot be empty''),
      nameless_campus)"
proof -
  have s9: "''P9'' \<notin> s_student_id ` set (students campus)"
    and s1: "''P1'' \<in> s_student_id ` set (students campus)"
    and cx: "''XYZ0001'' \<notin> c_course_code ` set (courses campus)"
    and ca: "''ABC1234'' \<in> c_course_code ` set (courses campus)"
    and en: "\<exists>e \<in> set (enrollments campus). e_student_id e = ''P1'' \<and> e_course_code e = ''ABC1234''"
    by (simp_all add: campus_def jane_def intro_def jane_intro_def)
  have nb: "\<not> blank ''P1''" "\<not> blank ''ABC1234''"
    by (simp_all add: blank_def strip_def is_space_def)
  have s0: "[] \<in> s_student_id ` set (students nameless_campus)"
    and c0: "''ABC1234'' \<in> c_course_code ` set (courses nameless_campus)"
    and e0: "\<not> (\<exists>e \<in> set (enrollments nameless_campus). e_student_id e = [] \<and> e_course_code e = ''ABC1234'')"
    and b0: "blank [] \<or> blank ''ABC1234''"
    by (simp_all add: nameless_campus_def nameless_def intro_def blank_def)
  have 1: "enroll_student clock campus ''P9'' ''ABC1234'' =
     (Inl (ValueError (''Student with ID '' @ ''P9'' @ '' not found.'')), campus)"
    using enroll_student_outcomes [where st = campus and sid = "''P9''" and code = "''ABC1234''"
        and now = clock] s9
    by blast
  have 2: "enroll_student clock campus ''P1'' ''XYZ0001'' =
     (Inl (ValueError (''Course with code '' @ ''XYZ0001'' @ '' not found.'')), campus)"
    using enroll_student_outcomes [where st = campus and sid = "''P1''" and code = "''XYZ0001''"
        and now = clock] s1 cx
    by blast
  have 3: "enroll_student clock campus ''P1'' ''ABC1234'' =
     (Inl (ValueError (''Student '' @ ''P1'' @ '' is already enrolled in '' @ ''ABC1234'' @ ''.'')),
      campus)"
    using enroll_student_outcomes [where st = campus and sid = "''P1''" and code = "''ABC1234''"
        and now = clock] s1 ca en
    by blast
  have 4: "enroll_student clock (campus\<lparr>enrollments := []\<rparr>) ''P1'' ''ABC1234'' =
     (Inr jane_intro,
      campus\<lparr>enrollments := [jane_intro],
              files := save_enrollments clock Map.empty [jane_intro]\<rparr>)"
    using enroll_student_outcomes [where st = "campus\<lparr>enrollments := []\<rparr>" and sid = "''P1''"
        and code = "''ABC1234''" and now = clock] s1 ca nb
    by (simp add: jane_intro_def campus_def)
  have 5: "enroll_student clock nameless_campus [] ''ABC1234'' =
     (Inl (ValueError (''Invalid enrollment data: '' @
         join (Enrollment_validate (Enrollment_init clock [] ''ABC1234'' None None)))),
      nameless_campus)"
    using enroll_student_outcomes [where st = nameless_campus and sid = "[]"
        and code = "''ABC1234''" and now = clock] s0 c0 e0 b0
    by blast
  have v: "Enrollment_validate (Enrollment_init clock [] ''ABC1234'' None None) =
      [''Student ID is required and cannot be empty'']"
    by (simp add: Enrollment_validate_def Enrollment_init_def blank_def strip_def is_space_def)
  from 1 2 3 4 5 show ?thesis by (simp add: v)
qed

section \<open>Saving and loading\<close>

lemma digit_char_digit: "n < 10 \<Longrightarrow> digit_09 (digit_char n) \<and> of_char (digit_char n) - 48 = n"
  by (simp add: digit_09_def in_range_def digit_char_def)

lemma length_zero_pad: "length (zero_pad w n) = w"
  by (induction w arbitrary: n) simp_all

lemma parse_digits_append:
  "parse_digits acc (xs @ ys) =
     (case parse_digits acc xs of None \<Rightarrow> None | Some a \<Rightarrow> parse_digits a ys)"
  by (induction xs arbitrary: acc) simp_all

lemma parse_zero_pad:
  "n < 10 ^ w \<Longrightarrow> parse_digits acc (zero_pad w n) = Some (acc * 10 ^ w + n)"
proof (induction w arbitrary: n)
  case 0
  then show ?case by simp
next
  case (Suc w)
  from Suc.prems have "n div 10 < 10 ^ w" by (simp add: less_mult_imp_div_less mult.commute)
  then have "parse_digits acc (zero_pad w (n div 10)) = Some (acc * 10 ^ w + n div 10)"
    by (rule Suc.IH)
  moreover have "n mod 10 < 10" by simp
  ultimately show ?case
    using digit_char_digit [of "n mod 10"]
    by (simp add: parse_digits_append algebra_simps)
qed

lemma parse_zero_pad_0: "n < 10 ^ w \<Longrightarrow> parse_digits 0 (zero_pad w n) = Some n"
  by (simp add: parse_zero_pad)

lemma iso_roundtrip:
  assumes "valid_datetime d"
  shows "fromisoformat (isoformat d) = Some d"
proof (cases d)
  case (fields y mo dy h mi sec us)
  from assms have r: "y < 10 ^ 4" "mo < 10 ^ 2" "dy < 10 ^ 2" "h < 10 ^ 2" "mi < 10 ^ 2"
    "sec < 10 ^ 2" "us < 10 ^ 6"
    unfolding fields by (auto simp add: valid_datetime_def days_in_month_def split: if_splits)
  note p = r [THEN parse_zero_pad_0]
  show ?thesis
  proof (cases "us = 0")
    case True
    with assms p show ?thesis
      unfolding fields
      by (simp add: fromisoformat_def isoformat_def slice_def length_zero_pad nth_append)
  next
    case False
    with assms p show ?thesis
      unfolding fields
      by (simp add: fromisoformat_def isoformat_def slice_def length_zero_pad nth_append)
  qed
qed

lemma map_result_inverse:
  "(\<forall>x \<in> set xs. f (g x) = Inr x) \<Longrightarrow> map_result f (map g xs) = Inr xs"
  by (induction xs) simp_all

lemma student_dict_roundtrip: "Student_from_dict (Student_to_dict s) = Inr s"
  by (simp add: Student_from_dict_def Student_to_dict_def str_field_def subscript_def)

lemma course_dict_roundtrip: "Course_from_dict (Course_to_dict c) = Inr c"
  by (simp add: Course_from_dict_def Course_to_dict_def str_field_def int_field_def subscript_def)

lemma enrollment_dict_roundtrip:
  "valid_datetime (e_enrollment_date e) \<Longrightarrow>
   Enrollment_from_dict now (Enrollment_to_dict e) = Inr e"
  by (cases "e_grade e")
     (simp_all add: Enrollment_from_dict_def Enrollment_to_dict_def str_field_def subscript_def
        iso_roundtrip Enrollment_init_def)

lemma load_saved:
  "load_collection (fs(collection @ ''.json'' \<mapsto> Doc (envelope now collection items)))
     collection from_dict = map_result from_dict items"
  by (simp add: load_collection_def envelope_def)

text \<open>
  Claim C4. Saving a collection of students, of courses or of enrolments and loading it
  again gives the same list: the same entities in the same order, every field as it was,
  a score as it was (an absent one stays absent), and the date of an enrolment read back
  from its ISO-8601 text. The dates are those a \<^verbatim>\<open>datetime\<close> can hold.
\<close>

theorem save_then_load:
  "load_students (save_students now fs xs) = Inr xs
   \<and> load_courses (save_courses now fs cs) = Inr cs
   \<and> ((\<forall>e \<in> set es. valid_datetime (e_enrollment_date e)) \<longrightarrow>
        load_enrollments now' (save_enrollments now fs es) = Inr es)
   \<and> (valid_datetime d \<longrightarrow> fromisoformat (isoformat d) = Some d)"
proof -
  have s: "load_students (save_students now fs xs) = Inr xs"
    using load_saved [of fs "''students''" now "map Student_to_dict xs" Student_from_dict]
    by (simp add: load_students_def save_students_def map_result_inverse student_dict_roundtrip)
  have c: "load_courses (save_courses now fs cs) = Inr cs"
    using load_saved [of fs "''courses''" now "map Course_to_dict cs" Course_from_dict]
    by (simp add: load_courses_def save_courses_def map_result_inverse course_dict_roundtrip)
  have e: "load_enrollments now' (save_enrollments now fs es) = Inr es"
    if "\<forall>e \<in> set es. valid_datetime (e_enrollment_date e)"
    using that
      load_saved [of fs "''enrollments''" now "map Enrollment_to_dict es" "Enrollment_from_dict now'"]
    by (simp add: load_enrollments_def save_enrollments_def map_result_inverse
        enrollment_dict_roundtrip)
  from s c e iso_roundtrip [of d] show ?thesis by blast
qed

theorem save_then_load_witness:
  "valid_datetime clock
   \<and> isoformat clock = ''2024-01-15T10:30:00''
   \<and> fromisoformat ''2024-01-15T10:30:00'' = Some clock
   \<and> load_enrollments clock
        (save_enrollments clock Map.empty [jane_intro\<lparr>e_grade := Some 85\<rparr>, jane_intro]) =
      Inr [jane_intro\<lparr>e_grade := Some 85\<rparr>, jane_intro]"
proof -
  have v: "valid_datetime clock"
    by (simp add: valid_datetime_def clock_def days_in_month_def)
  have i: "isoformat clock = ''2024-01-15T10:30:00''"
    by code_simp
  note t = save_then_load [where d = clock and now = clock and now' = clock and fs = Map.empty
      and es = "[jane_intro\<lparr>e_grade := Some 85\<rparr>, jane_intro]"]
  have h: "\<forall>e \<in> set [jane_intro\<lparr>e_grade := Some 85\<rparr>, jane_intro].
      valid_datetime (e_enrollment_date e)"
    by (simp add: jane_intro_def v)
  from t v have "fromisoformat (isoformat clock) = Some clock" by blast
  then have f: "fromisoformat ''2024-01-15T10:30:00'' = Some clock" by (simp only: i)
  from t h have "load_enrollments clock
        (save_enrollments clock Map.empty [jane_intro\<lparr>e_grade := Some 85\<rparr>, jane_intro]) =
      Inr [jane_intro\<lparr>e_grade := Some 85\<rparr>, jane_intro]" by blast
  with v i f show ?thesis by blast
qed

section \<open>Validation\<close>

subsection \<open>What the patterns accept\<close>

lemma matches_Zero: "rx_matches Zero s = False"
  by (induction s) simp_all

lemma matches_One: "rx_matches One s = (s = [])"
  by (cases s) (simp_all add: matches_Zero)

lemma matches_Cls: "rx_matches (Cls p) s = (\<exists>c. s = [c] \<and> p c)"
  by (cases s) (auto simp add: matches_One matches_Zero)

lemma matches_Alt: "rx_matches (Alt r t) s = (rx_matches r s \<or> rx_matches t s)"
  by (induction s arbitrary: r t) simp_all

lemma matches_Seq:
  "rx_matches (Seq r t) s = (\<exists>u v. s = u @ v \<and> rx_matches r u \<and> rx_matches t v)"
proof (induction s arbitrary: r t)
  case Nil
  then show ?case by simp
next
  case (Cons c cs)
  have split: "(\<exists>u v. c # cs = u @ v \<and> rx_matches r u \<and> rx_matches t v) =
      ((nullable r \<and> rx_matches (deriv c t) cs) \<or>
       (\<exists>u v. cs = u @ v \<and> rx_matches (deriv c r) u \<and> rx_matches t v))"
    (is "?L = ?R")
  proof
    assume ?L
    then obtain u v where uv: "c # cs = u @ v" "rx_matches r u" "rx_matches t v" by blast
    show ?R
    proof (cases u)
      case Nil
      with uv show ?thesis by auto
    next
      case (Cons a u')
      with uv have "cs = u' @ v" "rx_matches (deriv c r) u'" by auto
      with uv(3) show ?thesis by blast
    qed
  next
    assume ?R
    then show ?L
    proof
      assume "nullable r \<and> rx_matches (deriv c t) cs"
      then have "c # cs = [] @ (c # cs)" "rx_matches r []" "rx_matches t (c # cs)" by simp_all
      then show ?L by blast
    next
      assume "\<exists>u v. cs = u @ v \<and> rx_matches (deriv c r) u \<and> rx_matches t v"
      then obtain u v where "cs = u @ v" "rx_matches (deriv c r) u" "rx_matches t v" by blast
      then have "c # cs = (c # u) @ v" "rx_matches r (c # u)" "rx_matches t v" by simp_all
      then show ?L by blast
    qed
  qed
  show ?case
    unfolding split by (auto simp add: matches_Alt Cons.IH)
qed

lemma matches_times:
  "rx_matches (times n (Cls p)) s = (length s = n \<and> list_all p s)"
proof (induction n arbitrary: s)
  case 0
  then show ?case by (auto simp add: matches_One)
next
  case (Suc n)
  show ?case
    by (cases s) (auto simp add: matches_Seq matches_Cls matches_One matches_Zero Suc.IH Cons_eq_append_conv)
qed

lemma course_code_pattern_exact:
  "rx_matches course_code_pattern code = exact_course_code code"
proof
  assume "rx_matches course_code_pattern code"
  then obtain u v where "code = u @ v" "length u = 3" "list_all upper_AZ u"
    "length v = 4" "list_all digit_09 v"
    by (auto simp add: course_code_pattern_def matches_Seq matches_times)
  then show "exact_course_code code"
    by (simp add: exact_course_code_def)
next
  assume e: "exact_course_code code"
  then have "code = take 3 code @ drop 3 code" "length (take 3 code) = 3"
    "length (drop 3 code) = 4"
    by (simp_all add: exact_course_code_def)
  with e show "rx_matches course_code_pattern code"
    unfolding course_code_pattern_def matches_Seq matches_times exact_course_code_def
    by blast
qed

lemma valid_course_code_iff:
  "is_valid_course_code code =
     (exact_course_code code \<or> (\<exists>c. code = c @ [CHR 0x0A] \<and> exact_course_code c))"
proof -
  have "(code \<noteq> [] \<and> last code = CHR 0x0A \<and> exact_course_code (butlast code)) =
      (\<exists>c. code = c @ [CHR 0x0A] \<and> exact_course_code c)"
    by (metis append_butlast_last_id butlast_snoc last_snoc snoc_eq_iff_butlast)
  then show ?thesis
    by (simp add: is_valid_course_code_def re_match_anchored_def course_code_pattern_exact)
qed

lemma email_with_newline_accepted: "is_valid_email (''jane@x.com'' @ [CHR 0x0A])"
  by code_simp

subsection \<open>Valid fields and the messages of invalid ones\<close>

lemma seven_chars:
  "length (code :: string) = 7 \<Longrightarrow> \<exists>a b c d e f g. code = [a, b, c, d, e, f, g]"
  by (auto simp add: eval_nat_numeral length_Suc_conv)

lemma upper_not_space: "upper_AZ c \<Longrightarrow> \<not> is_space c"
  by (auto simp add: upper_AZ_def in_range_def is_space_def Let_def)

lemma digit_not_space: "digit_09 c \<Longrightarrow> \<not> is_space c"
  by (auto simp add: digit_09_def in_range_def is_space_def Let_def)

lemma exact_code_accepted:
  assumes "exact_course_code code"
  shows "is_valid_course_code code \<and> \<not> blank code"
proof -
  from assms have "length code = 7" by (simp add: exact_course_code_def)
  then obtain a b c d e f g where code: "code = [a, b, c, d, e, f, g]"
    using seven_chars by blast
  with assms have cls: "upper_AZ a" "upper_AZ b" "upper_AZ c"
    "digit_09 d" "digit_09 e" "digit_09 f" "digit_09 g"
    by (simp_all add: exact_course_code_def eval_nat_numeral)
  have m: "rx_matches course_code_pattern code"
    unfolding code course_code_pattern_def
    by (simp add: eval_nat_numeral cls)
  have "\<not> is_space a" "\<not> is_space g"
    using cls by (simp_all add: upper_not_space digit_not_space)
  then have "\<not> blank code"
    unfolding code by (simp add: blank_def strip_def)
  with m show ?thesis
    by (simp add: is_valid_course_code_def re_match_anchored_def)
qed

lemma valid_course_fields:
  assumes "exact_course_code (c_course_code c)" "\<not> blank (c_name c)"
    "1 \<le> c_credits c" "c_credits c \<le> 6" "\<not> blank (c_instructor c)"
  shows "Course_validate c = []"
  using assms exact_code_accepted [of "c_course_code c"]
  by (simp add: Course_validate_def)

lemma course_messages:
  "blank (c_course_code c) \<Longrightarrow>
     ''Course code is required and cannot be empty'' \<in> set (Course_validate c)"
  "\<not> blank (c_course_code c) \<Longrightarrow> \<not> is_valid_course_code (c_course_code c) \<Longrightarrow>
     ''Course code must be in format XXX1234 (three uppercase letters followed by four digits)''
       \<in> set (Course_validate c)"
  "blank (c_name c) \<Longrightarrow>
     ''Course name is required and cannot be empty'' \<in> set (Course_validate c)"
  "c_credits c < 1 \<or> 6 < c_credits c \<Longrightarrow>
     ''Credits must be between 1 and 6'' \<in> set (Course_validate c)"
  "blank (c_instructor c) \<Longrightarrow>
     ''Instructor name is required and cannot be empty'' \<in> set (Course_validate c)"
  by (auto simp add: Course_validate_def)

lemma student_messages:
  "blank (s_student_id s) \<Longrightarrow>
     ''Student ID is required and cannot be empty'' \<in> set (Student_validate s)"
  "blank (s_name s) \<Longrightarrow> ''Name is required and cannot be empty'' \<in> set (Student_validate s)"
  "blank (s_email s) \<Longrightarrow> ''Email is required and cannot be empty'' \<in> set (Student_validate s)"
  "\<not> blank (s_email s) \<Longrightarrow> \<not> is_valid_email (s_email s) \<Longrightarrow>
     ''Email format is invalid'' \<in> set (Student_validate s)"
  "blank (s_program s) \<Longrightarrow>
     ''Program is required and cannot be empty'' \<in> set (Student_validate s)"
  by (auto simp add: Student_validate_def)

lemma enrollment_messages:
  "blank (e_student_id e) \<Longrightarrow>
     ''Student ID is required and cannot be empty'' \<in> set (Enrollment_validate e)"
  "blank (e_course_code e) \<Longrightarrow>
     ''Course code is required and cannot be empty'' \<in> set (Enrollment_validate e)"
  "e_grade e = Some g \<Longrightarrow> g < 0 \<or> 100 < g \<Longrightarrow>
     ''Grade must be between 0 and 100'' \<in> set (Enrollment_validate e)"
  by (auto simp add: Enrollment_validate_def)

lemma lowercase_code_rejected:
  "Course_validate (intro\<lparr>c_course_code := ''ab1234''\<rparr>) =
     [''Course code must be in format XXX1234 (three uppercase letters followed by four digits)'']"
  by code_simp

lemma nameless_is_loadable:
  "load_students (save_students clock Map.empty [nameless]) = Inr (students nameless_campus)"
  using load_saved [of Map.empty "''students''" clock "map Student_to_dict [nameless]"
      Student_from_dict]
  by (simp add: load_students_def save_students_def student_dict_roundtrip nameless_campus_def)

text \<open>
  Claim C6. Fields that satisfy every rule validate with no message, and a field that
  breaks its rule gets a message naming it (\<open>valid_course_fields\<close>, \<open>course_messages\<close>,
  \<open>student_messages\<close>, \<open>enrollment_messages\<close>), with one exception: the code of an
  offering. \<^verbatim>\<open>re.match\<close> with \<^verbatim>\<open>$\<close> also accepts a well-formed code followed by a line
  feed (\<open>valid_course_code_iff\<close>). Such a code is not three uppercase letters followed by
  four digits, yet the course validates with no message and is created.
\<close>

theorem course_code_with_newline_validates:
  "\<not> exact_course_code (c_course_code newline_course)
   \<and> Course_validate newline_course = []
   \<and> create_course clock (campus\<lparr>courses := []\<rparr>) (''ABC1234'' @ [CHR 0x0A]) ''Intro'' 3 ''Dr. X'' =
       (Inr newline_course,
        CourseService_save clock (campus\<lparr>courses := [newline_course]\<rparr>))"
proof -
  have 1: "\<not> exact_course_code (c_course_code newline_course)"
    by (simp add: exact_course_code_def newline_course_def)
  have 2: "Course_validate newline_course = []"
    by code_simp
  have 3: "get_course (campus\<lparr>courses := []\<rparr>) (''ABC1234'' @ [CHR 0x0A]) = None"
    by (simp add: get_course_def course_position_def)
  have 4: "\<lparr>c_course_code = ''ABC1234'' @ [CHR 0x0A], c_name = ''Intro'', c_credits = 3,
            c_instructor = ''Dr. X''\<rparr> = newline_course"
    by (simp add: newline_course_def)
  have "create_course clock (campus\<lparr>courses := []\<rparr>) (''ABC1234'' @ [CHR 0x0A]) ''Intro'' 3 ''Dr. X'' =
       (Inr newline_course,
        CourseService_save clock (campus\<lparr>courses := [newline_course]\<rparr>))"
    unfolding create_course_def Let_def 3 4 2 by simp
  with 1 2 show ?thesis by blast
qed

end
